theory Spec2Isabelle
  imports Main "HOL-Library.Multiset" "HOL-Library.Extended_Nat"
begin

text \<open>
  The containers of \<open>src/compiler/dataStructures.ts\<close> and of its earlier version: the
  fallback classes behind \<open>StringMap\<close>, \<open>NumberMap\<close> and \<open>StringSet\<close>, the searches with
  early exit, the sort in the insertion order of V8 objects, the conversions between
  maps and records, multimaps and the two equalities. First the functions, as the
  code has them; then what they do.
\<close>

section \<open>JavaScript values\<close>

text \<open>
  A value of a type \<open>T\<close> of the sources may be \<open>undefined\<close>: \<open>get(key: string): T\<close>
  returns it for a key that is not there, and a caller may store it. A value of type
  \<open>T\<close> is therefore \<open>Undefined\<close> or a proper value.
\<close>

datatype 'a jsval = Undefined | Value 'a

text \<open>
  Where the code compares values with \<open>===\<close> the values are the primitives below or
  references to objects. Numbers are the integers and \<open>NaN\<close>; \<open>NaN === NaN\<close> is false,
  every other value is identical to itself, and two object references are identical
  when they are the same reference.
\<close>

datatype prim = PNull | PBool bool | PNumber int | PNaN | PString string | PObject nat

definition strict_eq :: "prim jsval \<Rightarrow> prim jsval \<Rightarrow> bool" where
  "strict_eq a b = (a = b \<and> a \<noteq> Value PNaN)"

section \<open>Dictionary-mode objects\<close>

text \<open>
  An object made by \<open>Object.create(null)\<close> has no inherited members: its own
  properties are all there is. It is the list of its properties in the order
  \<open>for..in\<close> enumerates them. That order is the host's. Here a write to an existing
  property keeps its place and a new property goes last; a host may put the properties
  with integer names first. The theorems about maps hold for every list of properties,
  whatever its order.
\<close>

type_synonym 'v dict = "(string \<times> 'v jsval) list"

text \<open>\<open>key in obj\<close>\<close>

definition dict_has :: "'v dict \<Rightarrow> string \<Rightarrow> bool" where
  "dict_has d key = (key \<in> set (map fst d))"

text \<open>\<open>obj[key]\<close>\<close>

definition dict_get :: "'v dict \<Rightarrow> string \<Rightarrow> 'v jsval" where
  "dict_get d key = (case map_of d key of None \<Rightarrow> Undefined | Some v \<Rightarrow> v)"

text \<open>\<open>obj[key] = value\<close>\<close>

fun dict_set :: "string \<Rightarrow> 'v jsval \<Rightarrow> 'v dict \<Rightarrow> 'v dict" where
  "dict_set key v [] = [(key, v)]"
| "dict_set key v ((k, w) # d) =
     (if k = key then (key, v) # d else (k, w) # dict_set key v d)"

text \<open>\<open>delete obj[key]\<close>\<close>

definition dict_delete :: "string \<Rightarrow> 'v dict \<Rightarrow> 'v dict" where
  "dict_delete key d = filter (\<lambda>(k, _). k \<noteq> key) d"

text \<open>The keys \<open>for (const key in obj)\<close> visits.\<close>

definition dict_keys :: "'v dict \<Rightarrow> string list" where
  "dict_keys d = map fst d"

definition createDictionaryModeObject :: "'v dict" where
  "createDictionaryModeObject =
     (let map = [];
          map = dict_set ''__'' Undefined map;
          map = dict_delete ''__'' map
      in map)"

section \<open>The fallback string map\<close>

text \<open>
  \<open>ShimStringMap\<close> is the class behind \<open>StringMap\<close> when the host has no \<open>Map\<close>. A
  method that changes the map returns the changed map. The searches below only call
  the methods of the interface \<open>StringMap<T>\<close>; a \<open>Map\<close> of the host is read as the
  record of its entries in the order it enumerates them.
\<close>

record 'v ShimStringMap =
  data :: "'v dict"

type_synonym 'v StringMap = "'v ShimStringMap"

definition ShimStringMap_new :: "'v ShimStringMap" where
  "ShimStringMap_new = \<lparr> data = createDictionaryModeObject \<rparr>"

definition ShimStringMap_clear :: "'v ShimStringMap \<Rightarrow> 'v ShimStringMap" where
  "ShimStringMap_clear this = this\<lparr> data := createDictionaryModeObject \<rparr>"

definition ShimStringMap_delete :: "string \<Rightarrow> 'v ShimStringMap \<Rightarrow> 'v ShimStringMap" where
  "ShimStringMap_delete key this = this\<lparr> data := dict_delete key (data this) \<rparr>"

definition ShimStringMap_get :: "'v ShimStringMap \<Rightarrow> string \<Rightarrow> 'v jsval" where
  "ShimStringMap_get this key = dict_get (data this) key"

definition ShimStringMap_has :: "'v ShimStringMap \<Rightarrow> string \<Rightarrow> bool" where
  "ShimStringMap_has this key = dict_has (data this) key"

definition ShimStringMap_set :: "string \<Rightarrow> 'v jsval \<Rightarrow> 'v ShimStringMap \<Rightarrow> 'v ShimStringMap" where
  "ShimStringMap_set key v this = this\<lparr> data := dict_set key v (data this) \<rparr>"

text \<open>
  \<open>forEach\<close> calls \<open>f(this.data[key], key)\<close> for each key in turn. What the callback
  does to the variables it closes over is the state \<open>'s\<close> it passes on.
\<close>

definition ShimStringMap_forEach ::
  "'v ShimStringMap \<Rightarrow> ('v jsval \<Rightarrow> string \<Rightarrow> 's \<Rightarrow> 's) \<Rightarrow> 's \<Rightarrow> 's" where
  "ShimStringMap_forEach this f s =
     fold (\<lambda>key. f (dict_get (data this) key) key) (dict_keys (data this)) s"

section \<open>Iterators and the early-exit searches\<close>

text \<open>
  An \<open>Iterator<T>\<close> hands out its items one at a time and then reports \<open>done\<close>. It is
  finite and cannot be restarted: it is the list of the items it has not handed out
  yet, and \<open>next()\<close> takes the head. A loop \<open>while (true) { ... iter.next() ... }\<close>
  is the recursion over that list.

  \<open>keys()\<close>, \<open>values()\<close> and \<open>entries()\<close> belong to the host's \<open>Map\<close>, which the code
  only uses when the probe \<open>fullyFeaturedMaps\<close> is true. They enumerate what
  \<open>forEach\<close> visits, in the same order.
\<close>

type_synonym 'a Iterator = "'a list"

definition FullyFeaturedMap_keys :: "'v StringMap \<Rightarrow> string Iterator" where
  "FullyFeaturedMap_keys m = dict_keys (data m)"

definition FullyFeaturedMap_values :: "'v StringMap \<Rightarrow> 'v jsval Iterator" where
  "FullyFeaturedMap_values m = map (\<lambda>key. dict_get (data m) key) (dict_keys (data m))"

definition FullyFeaturedMap_entries :: "'v StringMap \<Rightarrow> (string \<times> 'v jsval) Iterator" where
  "FullyFeaturedMap_entries m =
     map (\<lambda>key. (key, dict_get (data m) key)) (dict_keys (data m))"

fun someInIterator :: "'a Iterator \<Rightarrow> ('a \<Rightarrow> bool) \<Rightarrow> bool" where
  "someInIterator [] predicate = False"
| "someInIterator (v # iter) predicate =
     (if predicate v then True else someInIterator iter predicate)"

text \<open>The loop of the first branch of \<open>findInMap\<close>.\<close>

fun findInMap_loop ::
  "(string \<times> 'v jsval) Iterator \<Rightarrow> ('v jsval \<Rightarrow> string \<Rightarrow> 'u jsval) \<Rightarrow> 'u jsval" where
  "findInMap_loop [] f = Undefined"
| "findInMap_loop ((key, v) # iter) f =
     (let result = f v key in
      if result \<noteq> Undefined then result else findInMap_loop iter f)"

text \<open>
  Each search is a constant chosen once by \<open>fullyFeaturedMaps\<close>; the probe is the
  first argument here. The callbacks are functions of their arguments alone.
\<close>

definition findInMap ::
  "bool \<Rightarrow> 'v StringMap \<Rightarrow> ('v jsval \<Rightarrow> string \<Rightarrow> 'u jsval) \<Rightarrow> 'u jsval" where
  "findInMap fullyFeaturedMaps m f =
     (if fullyFeaturedMaps
      then findInMap_loop (FullyFeaturedMap_entries m) f
      else ShimStringMap_forEach m
             (\<lambda>v key result. if result = Undefined then f v key else result) Undefined)"

definition someInMap :: "bool \<Rightarrow> 'v StringMap \<Rightarrow> (string \<Rightarrow> 'v jsval \<Rightarrow> bool) \<Rightarrow> bool" where
  "someInMap fullyFeaturedMaps m predicate =
     (if fullyFeaturedMaps
      then someInIterator (FullyFeaturedMap_entries m) (\<lambda>(key, v). predicate key v)
      else ShimStringMap_forEach m (\<lambda>v key found. found \<or> predicate key v) False)"

text \<open>
  Without full iteration \<open>someKeyInMap\<close> is \<open>someInMap\<close> itself: the predicate is called
  with the key and the value and ignores the value.
\<close>

definition someKeyInMap :: "bool \<Rightarrow> 'v StringMap \<Rightarrow> (string \<Rightarrow> bool) \<Rightarrow> bool" where
  "someKeyInMap fullyFeaturedMaps m predicate =
     (if fullyFeaturedMaps
      then someInIterator (FullyFeaturedMap_keys m) predicate
      else someInMap fullyFeaturedMaps m (\<lambda>key _. predicate key))"

definition someValueInMap :: "bool \<Rightarrow> 'v StringMap \<Rightarrow> ('v jsval \<Rightarrow> bool) \<Rightarrow> bool" where
  "someValueInMap fullyFeaturedMaps m predicate =
     (if fullyFeaturedMaps
      then someInIterator (FullyFeaturedMap_values m) predicate
      else someInMap fullyFeaturedMaps m (\<lambda>key v. predicate v))"

text \<open>\<open>_findMapValue\<close>, the value variant of the search for a result.\<close>

fun findMapValue_loop :: "'v jsval Iterator \<Rightarrow> ('v jsval \<Rightarrow> 'u jsval) \<Rightarrow> 'u jsval" where
  "findMapValue_loop [] f = Undefined"
| "findMapValue_loop (v # iter) f =
     (let result = f v in
      if result \<noteq> Undefined then result else findMapValue_loop iter f)"

definition findMapValue ::
  "bool \<Rightarrow> 'v StringMap \<Rightarrow> ('v jsval \<Rightarrow> 'u jsval) \<Rightarrow> 'u jsval" where
  "findMapValue fullyFeaturedMaps m f =
     (if fullyFeaturedMaps
      then findMapValue_loop (FullyFeaturedMap_values m) f
      else ShimStringMap_forEach m
             (\<lambda>v key result. if result = Undefined then f v else result) Undefined)"

section \<open>Numbers\<close>

text \<open>
  A JavaScript number is an IEEE 754 double. The code only makes numbers of the integers
  it parses from keys and of their differences, so a number is an integer that a
  double holds, an infinity or \<open>NaN\<close>. \<open>round_nat\<close> is the conversion of a natural
  number to the nearest double, ties to the even significand of 53 bits: it is the
  number itself below \<open>2 ^ 53\<close>, and \<open>Infinity\<close> from \<open>2 ^ 1024 - 2 ^ 970\<close> on.
\<close>

datatype number = Finite int | PosInfinity | NegInfinity | NaN

fun bit_length :: "nat \<Rightarrow> nat" where
  "bit_length n = (if n = 0 then 0 else Suc (bit_length (n div 2)))"

declare bit_length.simps [simp del]

definition round_nat :: "nat \<Rightarrow> number" where
  "round_nat n =
     (if n < 2 ^ 53 then Finite (int n)
      else let e = bit_length n - 53;
               q = n div 2 ^ e;
               r = n mod 2 ^ e;
               m = (if 2 ^ e < 2 * r \<or> (2 * r = 2 ^ e \<and> odd q) then q + 1 else q)
           in if 2 ^ 1024 \<le> m * 2 ^ e then PosInfinity else Finite (int (m * 2 ^ e)))"

fun number_negate :: "number \<Rightarrow> number" where
  "number_negate (Finite i) = Finite (- i)"
| "number_negate PosInfinity = NegInfinity"
| "number_negate NegInfinity = PosInfinity"
| "number_negate NaN = NaN"

definition round_int :: "int \<Rightarrow> number" where
  "round_int i = (if i < 0 then number_negate (round_nat (nat (- i))) else round_nat (nat i))"

text \<open>\<open>a - b\<close>: the exact difference, rounded; \<open>Infinity - Infinity\<close> is \<open>NaN\<close>.\<close>

fun number_minus :: "number \<Rightarrow> number \<Rightarrow> number" where
  "number_minus (Finite a) (Finite b) = round_int (a - b)"
| "number_minus NaN _ = NaN"
| "number_minus _ NaN = NaN"
| "number_minus PosInfinity PosInfinity = NaN"
| "number_minus NegInfinity NegInfinity = NaN"
| "number_minus PosInfinity _ = PosInfinity"
| "number_minus NegInfinity _ = NegInfinity"
| "number_minus (Finite a) PosInfinity = NegInfinity"
| "number_minus (Finite a) NegInfinity = PosInfinity"

section \<open>Sorting in the insertion order of V8 objects\<close>

text \<open>\<open>\d\<close> of a regular expression: an ASCII digit.\<close>

definition isDigit :: "char \<Rightarrow> bool" where
  "isDigit c = (c \<in> set ''0123456789'')"

text \<open>\<open>/^(0|([1-9]\d*))$/.test(s)\<close>\<close>

definition looksLikeNatural :: "string \<Rightarrow> bool" where
  "looksLikeNatural s =
     (case s of [] \<Rightarrow> False
      | c # cs \<Rightarrow> (c = CHR ''0'' \<and> cs = []) \<or> (c \<in> set ''123456789'' \<and> list_all isDigit cs))"

definition digit_value :: "char \<Rightarrow> nat" where
  "digit_value c = of_char c - 48"

text \<open>The integer a string of digits denotes in radix 10.\<close>

definition decimal_value :: "string \<Rightarrow> nat" where
  "decimal_value s = fold (\<lambda>c n. 10 * n + digit_value c) s 0"

text \<open>
  \<open>parseInt(s, 10)\<close> on a string of digits, which is all \<open>toInt\<close> is called on: the
  elements of \<open>naturals\<close> have keys that match the pattern. The result is the number
  value of the integer the digits denote. (From the 21st significant digit on a host
  may read a digit as \<open>0\<close> before it rounds; the keys evaluated below are shorter.)
\<close>

definition parseInt :: "string \<Rightarrow> number" where
  "parseInt s = round_nat (decimal_value s)"

text \<open>
  \<open>Array.prototype.sort(comparefn)\<close> is the host's. It is a stable sort here (an
  insertion sort): \<open>x\<close> goes behind \<open>y\<close> when \<open>comparefn(x, y)\<close> is positive, and a
  result of \<open>NaN\<close> counts as \<open>+0\<close>.
\<close>

fun sort_positive :: "number \<Rightarrow> bool" where
  "sort_positive (Finite i) = (0 < i)"
| "sort_positive PosInfinity = True"
| "sort_positive NegInfinity = False"
| "sort_positive NaN = False"

fun Array_sort_insert :: "('t \<Rightarrow> 't \<Rightarrow> number) \<Rightarrow> 't \<Rightarrow> 't list \<Rightarrow> 't list" where
  "Array_sort_insert comparefn x [] = [x]"
| "Array_sort_insert comparefn x (y # ys) =
     (if sort_positive (comparefn x y) then y # Array_sort_insert comparefn x ys
      else x # y # ys)"

definition Array_sort :: "('t \<Rightarrow> 't \<Rightarrow> number) \<Rightarrow> 't list \<Rightarrow> 't list" where
  "Array_sort comparefn xs = foldr (Array_sort_insert comparefn) xs []"

text \<open>The loop that pushes each value on \<open>naturals\<close> or on \<open>everythingElse\<close>.\<close>

fun partition_loop ::
  "('t \<Rightarrow> string) \<Rightarrow> 't list \<Rightarrow> 't list \<Rightarrow> 't list \<Rightarrow> 't list \<times> 't list" where
  "partition_loop toKey [] naturals everythingElse = (naturals, everythingElse)"
| "partition_loop toKey (v # vs) naturals everythingElse =
     (if looksLikeNatural (toKey v)
      then partition_loop toKey vs (naturals @ [v]) everythingElse
      else partition_loop toKey vs naturals (everythingElse @ [v]))"

definition sortInV8ObjectInsertionOrder :: "'t list \<Rightarrow> ('t \<Rightarrow> string) \<Rightarrow> 't list" where
  "sortInV8ObjectInsertionOrder vs toKey =
     (let (naturals, everythingElse) = partition_loop toKey vs [] [];
          toInt = (\<lambda>v. parseInt (toKey v));
          naturals = Array_sort (\<lambda>a b. number_minus (toInt a) (toInt b)) naturals
      in naturals @ everythingElse)"

section \<open>Records exchanged with other code\<close>

text \<open>
  A \<open>MapLike<T>\<close> is a plain object. It has its own properties, in the order \<open>for..in\<close>
  enumerates them, and the properties it inherits from its prototype chain; an object
  made by \<open>createDictionaryModeObject\<close> inherits none. \<open>obj[key]\<close> reads an own
  property, and an inherited one when there is no own property of that name.
\<close>

record 'v MapLike =
  own :: "'v dict"
  inherited :: "'v dict"

text \<open>\<open>hasOwnProperty.call(obj, key)\<close>\<close>

definition hasOwnProperty :: "'v MapLike \<Rightarrow> string \<Rightarrow> bool" where
  "hasOwnProperty obj key = dict_has (own obj) key"

text \<open>\<open>obj[key]\<close>\<close>

definition MapLike_get :: "'v MapLike \<Rightarrow> string \<Rightarrow> 'v jsval" where
  "MapLike_get obj key =
     (if dict_has (own obj) key then dict_get (own obj) key else dict_get (inherited obj) key)"

text \<open>
  The keys \<open>for (const key in obj)\<close> visits: the own ones, then the inherited ones
  that no own property hides. Every loop of the code skips a key that fails
  \<open>hasOwnProperty\<close>.
\<close>

definition forIn_keys :: "'v MapLike \<Rightarrow> string list" where
  "forIn_keys obj =
     dict_keys (own obj) @ filter (\<lambda>key. \<not> dict_has (own obj) key) (dict_keys (inherited obj))"

definition hasProperty :: "'v MapLike \<Rightarrow> string \<Rightarrow> bool" where
  "hasProperty m key = hasOwnProperty m key"

definition getProperty :: "'v MapLike \<Rightarrow> string \<Rightarrow> 'v jsval" where
  "getProperty m key = (if hasOwnProperty m key then MapLike_get m key else Undefined)"

definition mapOfMapLike :: "'v MapLike \<Rightarrow> 'v StringMap" where
  "mapOfMapLike object =
     fold (\<lambda>key m. if hasProperty object key
                    then ShimStringMap_set key (MapLike_get object key) m else m)
       (forIn_keys object) ShimStringMap_new"

definition mapLikeOfMap :: "'v StringMap \<Rightarrow> 'v MapLike" where
  "mapLikeOfMap m =
     \<lparr> own = ShimStringMap_forEach m (\<lambda>v key obj. dict_set key v obj) createDictionaryModeObject,
       inherited = [] \<rparr>"

section \<open>Equality of maps\<close>

text \<open>
  An argument of type \<open>StringMap<T>\<close> is \<open>undefined\<close>, \<open>null\<close> or a reference to a map
  object; \<open>left === right\<close> compares the references, and \<open>!left\<close> holds of \<open>undefined\<close>
  and \<open>null\<close>. The heap gives the map object at each address. \<open>_equalMaps\<close> is
  \<open>equalMaps\<close> here.
\<close>

datatype reference = RefUndefined | RefNull | Ref nat

definition equalMaps ::
  "bool \<Rightarrow> (nat \<Rightarrow> prim StringMap) \<Rightarrow> reference \<Rightarrow> reference \<Rightarrow>
     (prim jsval \<Rightarrow> prim jsval \<Rightarrow> bool) option \<Rightarrow> bool" where
  "equalMaps fullyFeaturedMaps heap left right equalityComparer =
     (if left = right then True
      else case left of
        Ref l \<Rightarrow>
          (case right of
             Ref r \<Rightarrow>
               (let someInLeftHasNoMatch =
                      someInMap fullyFeaturedMaps (heap l) (\<lambda>leftKey leftValue.
                        if \<not> ShimStringMap_has (heap r) leftKey then True
                        else let rightValue = ShimStringMap_get (heap r) leftKey
                             in \<not> (case equalityComparer of
                                     Some cmp \<Rightarrow> cmp leftValue rightValue
                                   | None \<Rightarrow> strict_eq leftValue rightValue))
                in if someInLeftHasNoMatch then False
                   else let someInRightHasNoMatch =
                              someKeyInMap fullyFeaturedMaps (heap r)
                                (\<lambda>rightKey. \<not> ShimStringMap_has (heap l) rightKey)
                        in \<not> someInRightHasNoMatch)
           | _ \<Rightarrow> False)
      | _ \<Rightarrow> False)"

section \<open>Equality of the own properties of records\<close>

text \<open>
  The two loops of \<open>equalOwnProperties\<close>: each is \<open>False\<close> when its body returns
  \<open>false\<close> and \<open>True\<close> when it runs to its end. In the first loop
  \<open>!hasOwnProperty.call(right, key) === undefined\<close> compares a boolean with
  \<open>undefined\<close>.
\<close>

fun equalOwnProperties_left ::
  "prim MapLike \<Rightarrow> prim MapLike \<Rightarrow> (prim jsval \<Rightarrow> prim jsval \<Rightarrow> bool) option \<Rightarrow>
     string list \<Rightarrow> bool" where
  "equalOwnProperties_left left right equalityComparer [] = True"
| "equalOwnProperties_left left right equalityComparer (key # keys) =
     (if hasOwnProperty left key then
        (if strict_eq (Value (PBool (\<not> hasOwnProperty right key))) Undefined then False
         else if (case equalityComparer of
                    Some cmp \<Rightarrow> \<not> cmp (MapLike_get left key) (MapLike_get right key)
                  | None \<Rightarrow> \<not> strict_eq (MapLike_get left key) (MapLike_get right key))
         then False
         else equalOwnProperties_left left right equalityComparer keys)
      else equalOwnProperties_left left right equalityComparer keys)"

fun equalOwnProperties_right :: "prim MapLike \<Rightarrow> prim MapLike \<Rightarrow> string list \<Rightarrow> bool" where
  "equalOwnProperties_right left right [] = True"
| "equalOwnProperties_right left right (key # keys) =
     (if hasOwnProperty right key then
        (if \<not> hasOwnProperty left key then False
         else equalOwnProperties_right left right keys)
      else equalOwnProperties_right left right keys)"

definition equalOwnProperties ::
  "(nat \<Rightarrow> prim MapLike) \<Rightarrow> reference \<Rightarrow> reference \<Rightarrow>
     (prim jsval \<Rightarrow> prim jsval \<Rightarrow> bool) option \<Rightarrow> bool" where
  "equalOwnProperties heap left right equalityComparer =
     (if left = right then True
      else case left of
        Ref l \<Rightarrow>
          (case right of
             Ref r \<Rightarrow>
               (if \<not> equalOwnProperties_left (heap l) (heap r) equalityComparer
                       (forIn_keys (heap l))
                then False
                else equalOwnProperties_right (heap l) (heap r) (forIn_keys (heap r)))
           | _ \<Rightarrow> False)
      | _ \<Rightarrow> False)"

section \<open>Multimaps\<close>

text \<open>
  A multimap is a \<open>StringMap<V[]>\<close>. An array is the list of its elements: \<open>multiMapAdd\<close>
  makes a new array for a new key, so that each key has an array of its own, and
  \<open>values.push(value)\<close> on the array of a key is a write of the longer array under that
  key. An array is truthy, also when it is empty, and \<open>undefined\<close> is not.
\<close>

definition setAndReturn :: "'v StringMap \<Rightarrow> string \<Rightarrow> 'v jsval \<Rightarrow> 'v jsval \<times> 'v StringMap" where
  "setAndReturn m key v = (let m = ShimStringMap_set key v m in (v, m))"

definition multiMapAdd ::
  "'a list StringMap \<Rightarrow> string \<Rightarrow> 'a \<Rightarrow> 'a list jsval \<times> 'a list StringMap" where
  "multiMapAdd m key v =
     (case ShimStringMap_get m key of
        Value values \<Rightarrow>
          (let values = values @ [v]
           in (Value values, ShimStringMap_set key (Value values) m))
      | Undefined \<Rightarrow> setAndReturn m key (Value [v]))"

text \<open>
  \<open>unorderedRemoveItem\<close> is not among the sources: \<open>multiMapRemove\<close> takes it as an
  argument. The key is deleted when the array is empty after the call,
  \<open>if (!values.length)\<close>.
\<close>

definition multiMapRemove ::
  "('a list \<Rightarrow> 'a \<Rightarrow> 'a list) \<Rightarrow> 'a list StringMap \<Rightarrow> string \<Rightarrow> 'a \<Rightarrow> 'a list StringMap" where
  "multiMapRemove unorderedRemoveItem m key v =
     (case ShimStringMap_get m key of
        Value values \<Rightarrow>
          (let values = unorderedRemoveItem values v;
               m = ShimStringMap_set key (Value values) m
           in if values = [] then ShimStringMap_delete key m else m)
      | Undefined \<Rightarrow> m)"

text \<open>
  Modelled from the spec: \<open>unorderedRemoveItem\<close> is not among the sources. The spec
  says that it removes one occurrence of the value from the list "without preserving
  remaining order", and that an absent value is a silent no-op: here the last element
  takes the place of the first occurrence and the list is one shorter.
\<close>

fun unorderedRemoveItem :: "'a list \<Rightarrow> 'a \<Rightarrow> 'a list" where
  "unorderedRemoveItem [] item = []"
| "unorderedRemoveItem (x # xs) item =
     (if x = item then (if xs = [] then [] else last xs # butlast xs)
      else x # unorderedRemoveItem xs item)"

section \<open>The fallback string set\<close>

text \<open>
  \<open>ShimSet\<close> keeps its members as the keys of a dictionary-mode object, each with the
  value \<open>true\<close>, and counts them in \<open>size\<close>.
\<close>

record ShimSet =
  ShimSet_data :: "bool dict"
  ShimSet_size :: int

definition ShimSet_new :: ShimSet where
  "ShimSet_new = \<lparr> ShimSet_data = createDictionaryModeObject, ShimSet_size = 0 \<rparr>"

definition ShimSet_has :: "ShimSet \<Rightarrow> string \<Rightarrow> bool" where
  "ShimSet_has this v = dict_has (ShimSet_data this) v"

definition ShimSet_add :: "string \<Rightarrow> ShimSet \<Rightarrow> ShimSet" where
  "ShimSet_add v this =
     (if \<not> ShimSet_has this v
      then this\<lparr> ShimSet_data := dict_set v (Value True) (ShimSet_data this),
                 ShimSet_size := ShimSet_size this + 1 \<rparr>
      else this)"

definition ShimSet_delete :: "string \<Rightarrow> ShimSet \<Rightarrow> ShimSet" where
  "ShimSet_delete v this =
     (if ShimSet_has this v
      then this\<lparr> ShimSet_data := dict_delete v (ShimSet_data this),
                 ShimSet_size := ShimSet_size this - 1 \<rparr>
      else this)"

definition ShimSet_forEach :: "ShimSet \<Rightarrow> (string \<Rightarrow> 's \<Rightarrow> 's) \<Rightarrow> 's \<Rightarrow> 's" where
  "ShimSet_forEach this f s = fold f (dict_keys (ShimSet_data this)) s"

text \<open>\<open>_setIsEmpty\<close>\<close>

definition setIsEmpty :: "ShimSet \<Rightarrow> bool" where
  "setIsEmpty s = (ShimSet_size s = 0)"

section \<open>The fallback number map\<close>

datatype error = DebugFailure

text \<open>
  Modelled from the spec: \<open>Debug.assert\<close> is not among the sources. A failed assertion
  is a violation of the programming contract, fatal and not recovered: the operation
  ends with the error.
\<close>

definition Debug_assert :: "bool \<Rightarrow> error + unit" where
  "Debug_assert expression = (if \<not> expression then Inl DebugFailure else Inr ())"

fun typeof :: "prim jsval \<Rightarrow> string" where
  "typeof Undefined = ''undefined''"
| "typeof (Value PNull) = ''object''"
| "typeof (Value (PBool _)) = ''boolean''"
| "typeof (Value (PNumber _)) = ''number''"
| "typeof (Value PNaN) = ''number''"
| "typeof (Value (PString _)) = ''string''"
| "typeof (Value (PObject _)) = ''object''"

text \<open>
  The keys of a number map are integers. A property of an object is named by a
  string: \<open>data[key]\<close> uses the decimal numeral of the key.
\<close>

definition digit_char :: "nat \<Rightarrow> char" where
  "digit_char d = ''0123456789'' ! d"

fun digits_of_nat :: "nat \<Rightarrow> string" where
  "digits_of_nat n =
     (if n < 10 then [digit_char n] else digits_of_nat (n div 10) @ [digit_char (n mod 10)])"

declare digits_of_nat.simps [simp del]

definition Number_toString :: "int \<Rightarrow> string" where
  "Number_toString i = (if i < 0 then CHR ''-'' # digits_of_nat (nat (- i)) else digits_of_nat (nat i))"

text \<open>
  \<open>ShimNumberMap\<close> keeps its entries in a plain object \<open>{}\<close>; none of the names such an
  object inherits is a numeral. The constructor takes the pairs, when there are any.
\<close>

record 'v ShimNumberMap =
  ShimNumberMap_data :: "'v dict"

definition ShimNumberMap_new :: "(int \<times> 'v jsval) list option \<Rightarrow> 'v ShimNumberMap" where
  "ShimNumberMap_new pairs =
     \<lparr> ShimNumberMap_data =
         (case pairs of
            None \<Rightarrow> []
          | Some ps \<Rightarrow> fold (\<lambda>(key, v) d. dict_set (Number_toString key) v d) ps []) \<rparr>"

definition ShimNumberMap_delete :: "int \<Rightarrow> 'v ShimNumberMap \<Rightarrow> 'v ShimNumberMap" where
  "ShimNumberMap_delete key this =
     this\<lparr> ShimNumberMap_data := dict_delete (Number_toString key) (ShimNumberMap_data this) \<rparr>"

definition ShimNumberMap_get :: "'v ShimNumberMap \<Rightarrow> int \<Rightarrow> 'v jsval" where
  "ShimNumberMap_get this key = dict_get (ShimNumberMap_data this) (Number_toString key)"

definition ShimNumberMap_has :: "'v ShimNumberMap \<Rightarrow> int \<Rightarrow> bool" where
  "ShimNumberMap_has this key = dict_has (ShimNumberMap_data this) (Number_toString key)"

definition ShimNumberMap_set :: "int \<Rightarrow> 'v jsval \<Rightarrow> 'v ShimNumberMap \<Rightarrow> 'v ShimNumberMap" where
  "ShimNumberMap_set key v this =
     this\<lparr> ShimNumberMap_data := dict_set (Number_toString key) v (ShimNumberMap_data this) \<rparr>"

text \<open>
  \<open>forEach\<close>: the variable of \<open>for (const key in this.data)\<close> is the name of a
  property, a string, and the loop asserts \<open>typeof key === "number"\<close> before it calls
  the action.
\<close>

fun ShimNumberMap_forEach_loop ::
  "'v dict \<Rightarrow> ('v jsval \<Rightarrow> string \<Rightarrow> 's \<Rightarrow> 's) \<Rightarrow> string list \<Rightarrow> 's \<Rightarrow> error + 's" where
  "ShimNumberMap_forEach_loop d action [] s = Inr s"
| "ShimNumberMap_forEach_loop d action (key # keys) s =
     (case Debug_assert (typeof (Value (PString key)) = ''number'') of
        Inl e \<Rightarrow> Inl e
      | Inr _ \<Rightarrow> ShimNumberMap_forEach_loop d action keys (action (dict_get d key) key s))"

definition ShimNumberMap_forEach ::
  "'v ShimNumberMap \<Rightarrow> ('v jsval \<Rightarrow> string \<Rightarrow> 's \<Rightarrow> 's) \<Rightarrow> 's \<Rightarrow> error + 's" where
  "ShimNumberMap_forEach this action s =
     ShimNumberMap_forEach_loop (ShimNumberMap_data this) action
       (dict_keys (ShimNumberMap_data this)) s"

section \<open>Auxiliary functions of the proofs\<close>

text \<open>The first result that is not \<open>undefined\<close>.\<close>

fun first_defined :: "('a \<Rightarrow> 'u jsval) \<Rightarrow> 'a list \<Rightarrow> 'u jsval" where
  "first_defined g [] = Undefined"
| "first_defined g (x # xs) = (if g x \<noteq> Undefined then g x else first_defined g xs)"

text \<open>
  The place of a number that is not negative in the ascending order of the numbers:
  \<open>Infinity\<close> comes after every integer.
\<close>

fun number_rank :: "number \<Rightarrow> enat" where
  "number_rank (Finite i) = enat (nat i)"
| "number_rank PosInfinity = \<infinity>"
| "number_rank NegInfinity = 0"
| "number_rank NaN = 0"

text \<open>
  What the spec asks of \<open>unorderedRemoveItem\<close>: one occurrence of a value that is in the
  list goes, and a list without the value stays as it is.
\<close>

definition removes_one_occurrence :: "('a list \<Rightarrow> 'a \<Rightarrow> 'a list) \<Rightarrow> bool" where
  "removes_one_occurrence rm =
     (\<forall>xs x. (x \<in> set xs \<longrightarrow> mset (rm xs x) = mset xs - {#x#})
           \<and> (x \<notin> set xs \<longrightarrow> rm xs x = xs))"

text \<open>The invariant of \<open>ShimSet\<close>: \<open>size\<close> is the number of distinct members.\<close>

definition size_counts_members :: "ShimSet \<Rightarrow> bool" where
  "size_counts_members s = (ShimSet_size s = int (card (set (dict_keys (ShimSet_data s)))))"

section \<open>Properties of dictionary-mode objects\<close>

lemma map_of_dict_set: "map_of (dict_set key v d) = (map_of d)(key \<mapsto> v)"
  by (induction d) auto

lemma keys_dict_set: "fst ` set (dict_set key v d) = insert key (fst ` set d)"
  by (simp add: map_of_dict_set flip: dom_map_of_conv_image_fst)

lemma distinct_dict_set: "distinct (map fst d) \<Longrightarrow> distinct (map fst (dict_set key v d))"
  by (induction d) (auto simp: keys_dict_set)

lemma map_of_dict_delete: "map_of (dict_delete key d) = (map_of d)(key := None)"
  by (induction d) (auto simp: dict_delete_def)

lemma keys_dict_delete: "fst ` set (dict_delete key d) = fst ` set d - {key}"
  by (simp add: map_of_dict_delete flip: dom_map_of_conv_image_fst)

lemma distinct_dict_delete: "distinct (map fst d) \<Longrightarrow> distinct (map fst (dict_delete key d))"
  by (simp add: dict_delete_def distinct_map_filter)

lemma dict_get_set: "dict_get (dict_set key v d) k = (if k = key then v else dict_get d k)"
  by (simp add: dict_get_def map_of_dict_set)

lemma dict_has_set: "dict_has (dict_set key v d) k = (k = key \<or> dict_has d k)"
  by (simp add: dict_has_def keys_dict_set)

lemma dict_get_delete:
  "dict_get (dict_delete key d) k = (if k = key then Undefined else dict_get d k)"
  by (simp add: dict_get_def map_of_dict_delete)

lemma dict_has_delete: "dict_has (dict_delete key d) k = (k \<noteq> key \<and> dict_has d k)"
  by (auto simp: dict_has_def keys_dict_delete)

lemma createDictionaryModeObject_empty: "createDictionaryModeObject = []"
  by (simp add: createDictionaryModeObject_def dict_delete_def)

lemma dict_get_Nil: "dict_get [] k = Undefined"
  by (simp add: dict_get_def)

lemma dict_has_Nil: "\<not> dict_has [] k"
  by (simp add: dict_has_def)

section \<open>Claims about the string map\<close>

text \<open>
  C1. For every fallback string map, key \<open>k\<close> and value \<open>v\<close>: right after \<open>set(k, v)\<close>,
  \<open>has(k)\<close> is true and \<open>get(k)\<close> returns \<open>v\<close>; right after \<open>delete(k)\<close>, \<open>has(k)\<close> is
  false and \<open>get(k)\<close> returns \<open>undefined\<close>.
\<close>

theorem ShimStringMap_set_delete_then_has_get:
  "ShimStringMap_has (ShimStringMap_set k v m) k
   \<and> ShimStringMap_get (ShimStringMap_set k v m) k = v
   \<and> \<not> ShimStringMap_has (ShimStringMap_delete k m) k
   \<and> ShimStringMap_get (ShimStringMap_delete k m) k = Undefined"
  by (simp add: ShimStringMap_has_def ShimStringMap_get_def ShimStringMap_set_def
      ShimStringMap_delete_def dict_get_set dict_has_set dict_get_delete dict_has_delete)

text \<open>
  C9. In the fallback string map an entry that stores \<open>undefined\<close> cannot be told from
  a missing entry by \<open>get\<close>: after \<open>set(k, undefined)\<close>, \<open>has(k)\<close> is true and \<open>get(k)\<close>
  returns \<open>undefined\<close>, the value \<open>get\<close> returns for a key of a new map, and for a key
  that was deleted.
\<close>

theorem ShimStringMap_get_of_stored_undefined:
  "ShimStringMap_has (ShimStringMap_set k Undefined m) k
   \<and> ShimStringMap_get (ShimStringMap_set k Undefined m) k = Undefined
   \<and> \<not> ShimStringMap_has ShimStringMap_new k
   \<and> ShimStringMap_get ShimStringMap_new k = Undefined
   \<and> ShimStringMap_get (ShimStringMap_set k Undefined m) k
       = ShimStringMap_get (ShimStringMap_delete k m) k"
  by (simp add: ShimStringMap_has_def ShimStringMap_get_def ShimStringMap_set_def
      ShimStringMap_delete_def ShimStringMap_new_def createDictionaryModeObject_empty
      dict_get_set dict_has_set dict_get_delete dict_get_Nil dict_has_Nil)

section \<open>The two strategies of the early-exit searches\<close>

lemma someInIterator_iff: "someInIterator iter predicate = (\<exists>x \<in> set iter. predicate x)"
  by (induction iter) auto

lemma someInIterator_map: "someInIterator (map g xs) p = someInIterator xs (\<lambda>x. p (g x))"
  by (induction xs) auto

lemma fold_found_iter: "fold (\<lambda>x found. found \<or> p x) xs b = (b \<or> someInIterator xs p)"
  by (induction xs arbitrary: b) auto

lemma findInMap_loop_map:
  "findInMap_loop (map (\<lambda>key. (key, g key)) ks) f = first_defined (\<lambda>key. f (g key) key) ks"
  by (induction ks) (auto simp: Let_def)

lemma findMapValue_loop_map:
  "findMapValue_loop (map g ks) f = first_defined (\<lambda>key. f (g key)) ks"
  by (induction ks) (auto simp: Let_def)

lemma fold_result:
  "fold (\<lambda>x result. if result = Undefined then g x else result) xs r =
     (if r = Undefined then first_defined g xs else r)"
  by (induction xs arbitrary: r) auto

lemma someInMap_strategies: "someInMap True m p = someInMap False m p"
  by (simp add: someInMap_def ShimStringMap_forEach_def FullyFeaturedMap_entries_def
      fold_found_iter someInIterator_map)

lemma findInMap_strategies: "findInMap True m f = findInMap False m f"
  by (simp add: findInMap_def ShimStringMap_forEach_def FullyFeaturedMap_entries_def
      fold_result findInMap_loop_map)

lemma someKeyInMap_strategies: "someKeyInMap True m p = someKeyInMap False m p"
  by (simp add: someKeyInMap_def someInMap_def ShimStringMap_forEach_def
      FullyFeaturedMap_keys_def fold_found_iter)

lemma someValueInMap_strategies: "someValueInMap True m p = someValueInMap False m p"
  by (simp add: someValueInMap_def someInMap_def ShimStringMap_forEach_def
      FullyFeaturedMap_values_def fold_found_iter someInIterator_map)

lemma findMapValue_strategies: "findMapValue True m f = findMapValue False m f"
  by (simp add: findMapValue_def ShimStringMap_forEach_def FullyFeaturedMap_values_def
      fold_result findMapValue_loop_map)

text \<open>
  C2. For every map and every callback that is a function of its arguments, the branch
  that walks an iterator and the branch that falls back on \<open>forEach\<close> return the same
  result: for \<open>someInMap\<close> and \<open>findInMap\<close> and for their key and value variants
  \<open>someKeyInMap\<close>, \<open>someValueInMap\<close> and \<open>_findMapValue\<close>.
\<close>

theorem early_exit_strategies_agree:
  "someInMap True m predicate = someInMap False m predicate
   \<and> findInMap True m f = findInMap False m f
   \<and> someKeyInMap True m keyPredicate = someKeyInMap False m keyPredicate
   \<and> someValueInMap True m valuePredicate = someValueInMap False m valuePredicate
   \<and> findMapValue True m g = findMapValue False m g"
proof (intro conjI)
  show "someInMap True m predicate = someInMap False m predicate"
    by (rule someInMap_strategies)
  show "findInMap True m f = findInMap False m f"
    by (rule findInMap_strategies)
  show "someKeyInMap True m keyPredicate = someKeyInMap False m keyPredicate"
    by (rule someKeyInMap_strategies)
  show "someValueInMap True m valuePredicate = someValueInMap False m valuePredicate"
    by (rule someValueInMap_strategies)
  show "findMapValue True m g = findMapValue False m g"
    by (rule findMapValue_strategies)
qed

section \<open>Sorting in the insertion order of V8 objects: proofs\<close>

lemma partition_loop_filter:
  "partition_loop toKey vs ns es =
     (ns @ filter (\<lambda>v. looksLikeNatural (toKey v)) vs,
      es @ filter (\<lambda>v. \<not> looksLikeNatural (toKey v)) vs)"
  by (induction vs arbitrary: ns es) auto

lemma bit_length_lower: "0 < n \<Longrightarrow> 2 ^ (bit_length n - 1) \<le> n"
proof (induction n rule: bit_length.induct)
  case (1 n)
  show ?case
  proof (cases "n div 2 = 0")
    case True
    then have "bit_length n = 1"
      using "1.prems" by (simp add: bit_length.simps)
    then show ?thesis using "1.prems" by simp
  next
    case False
    then have pos: "0 < n div 2" by simp
    have ih: "2 ^ (bit_length (n div 2) - 1) \<le> n div 2"
      using "1.IH" "1.prems" pos by simp
    have bl: "bit_length n = Suc (bit_length (n div 2))"
      using "1.prems" by (subst bit_length.simps) simp
    have "0 < bit_length (n div 2)"
      using pos by (subst bit_length.simps) simp
    then have "(2::nat) ^ (bit_length n - 1) = 2 * 2 ^ (bit_length (n div 2) - 1)"
      using bl by (cases "bit_length (n div 2)") simp_all
    also have "\<dots> \<le> 2 * (n div 2)" using ih by simp
    also have "\<dots> \<le> n" by simp
    finally show ?thesis .
  qed
qed

lemma round_nat_cases:
  "round_nat n = PosInfinity \<or> (\<exists>k. round_nat n = Finite (int k) \<and> (0 < n \<longrightarrow> 0 < k))"
proof (cases "n < 2 ^ 53")
  case True
  then show ?thesis by (simp add: round_nat_def)
next
  case False
  define e where "e = bit_length n - 53"
  define q where "q = n div 2 ^ e"
  define r where "r = n mod 2 ^ e"
  define m where "m = (if 2 ^ e < 2 * r \<or> (2 * r = 2 ^ e \<and> odd q) then q + 1 else q)"
  have npos: "0 < n" using False by (cases n) simp_all
  have "(2::nat) ^ e \<le> 2 ^ (bit_length n - 1)"
    unfolding e_def by (rule power_increasing) simp_all
  also have "\<dots> \<le> n" using npos by (rule bit_length_lower)
  finally have "0 < q" unfolding q_def by (simp add: div_greater_zero_iff)
  then have "0 < m" unfolding m_def by simp
  then have mpos: "0 < m * 2 ^ e" by simp
  have eq: "round_nat n = (if 2 ^ 1024 \<le> m * 2 ^ e then PosInfinity else Finite (int (m * 2 ^ e)))"
    using False unfolding round_nat_def Let_def e_def q_def r_def m_def by (simp only: if_False)
  show ?thesis
  proof (cases "2 ^ 1024 \<le> m * 2 ^ e")
    case True
    with eq have "round_nat n = PosInfinity" by (simp only: if_True)
    then show ?thesis by (rule disjI1)
  next
    case False
    with eq have "round_nat n = Finite (int (m * 2 ^ e))" by (simp only: if_False)
    with mpos show ?thesis by blast
  qed
qed

lemma round_nat_zero: "round_nat 0 = Finite 0"
  by (simp add: round_nat_def)

lemma round_nat_exact: "n < 2 ^ 53 \<Longrightarrow> round_nat n = Finite (int n)"
  by (simp add: round_nat_def)

lemma round_nat_range: "round_nat n = PosInfinity \<or> (\<exists>k. round_nat n = Finite (int k))"
  using round_nat_cases [of n] by blast

lemma sort_positive_round_nat: "sort_positive (round_nat n) = (0 < n)"
proof (cases "n = 0")
  case True
  then show ?thesis by (simp add: round_nat_zero)
next
  case False
  from round_nat_cases [of n] show ?thesis
  proof
    assume "round_nat n = PosInfinity"
    then show ?thesis using False by simp
  next
    assume "\<exists>k. round_nat n = Finite (int k) \<and> (0 < n \<longrightarrow> 0 < k)"
    then obtain k where "round_nat n = Finite (int k)" "0 < k" using False by auto
    then show ?thesis using False by simp
  qed
qed

lemma not_sort_positive_negate: "\<not> sort_positive (number_negate (round_nat n))"
proof -
  from round_nat_range [of n] show ?thesis
  proof
    assume "round_nat n = PosInfinity"
    then show ?thesis by simp
  next
    assume "\<exists>k. round_nat n = Finite (int k)"
    then obtain k where "round_nat n = Finite (int k)" ..
    then show ?thesis by simp
  qed
qed

lemma sort_positive_round_int: "sort_positive (round_int i) = (0 < i)"
proof (cases "i < 0")
  case True
  then show ?thesis by (simp add: round_int_def not_sort_positive_negate)
next
  case False
  then show ?thesis by (simp add: round_int_def sort_positive_round_nat)
qed

lemma minus_round_nat:
  "sort_positive (number_minus (round_nat a) (round_nat b)) =
     (number_rank (round_nat b) < number_rank (round_nat a))"
proof -
  from round_nat_range [of a] show ?thesis
  proof
    assume a: "round_nat a = PosInfinity"
    from round_nat_range [of b] show ?thesis
    proof
      assume "round_nat b = PosInfinity"
      with a show ?thesis by simp
    next
      assume "\<exists>k. round_nat b = Finite (int k)"
      then obtain k where "round_nat b = Finite (int k)" ..
      with a show ?thesis by simp
    qed
  next
    assume "\<exists>j. round_nat a = Finite (int j)"
    then obtain j where a: "round_nat a = Finite (int j)" ..
    from round_nat_range [of b] show ?thesis
    proof
      assume "round_nat b = PosInfinity"
      with a show ?thesis by simp
    next
      assume "\<exists>k. round_nat b = Finite (int k)"
      then obtain k where "round_nat b = Finite (int k)" ..
      with a show ?thesis by (simp add: sort_positive_round_int)
    qed
  qed
qed

lemma Array_sort_insert_insort_key:
  assumes "\<And>y. sort_positive (comparefn x y) = (key y < key x)"
  shows "Array_sort_insert comparefn x ys = insort_key key x ys"
proof (induction ys)
  case Nil
  show ?case by simp
next
  case (Cons y ys)
  have "sort_positive (comparefn x y) = (\<not> key x \<le> key y)"
    by (simp add: assms not_le)
  with Cons show ?case by simp
qed

lemma Array_sort_sort_key:
  assumes "\<And>x y. sort_positive (comparefn x y) = (key y < key x)"
  shows "Array_sort comparefn xs = sort_key (key :: 'a \<Rightarrow> 'k::linorder) xs"
proof -
  have step: "Array_sort_insert comparefn x ys = insort_key key x ys" for x ys
    using assms by (rule Array_sort_insert_insort_key)
  show ?thesis
    unfolding Array_sort_def sort_key_def by (induction xs) (simp_all add: step)
qed

lemma sortInV8_characterisation:
  "sortInV8ObjectInsertionOrder vs toKey =
     sort_key (\<lambda>v. number_rank (parseInt (toKey v))) (filter (\<lambda>v. looksLikeNatural (toKey v)) vs)
     @ filter (\<lambda>v. \<not> looksLikeNatural (toKey v)) vs"
proof -
  have "Array_sort (\<lambda>a b. number_minus (parseInt (toKey a)) (parseInt (toKey b))) ns =
          sort_key (\<lambda>v. number_rank (parseInt (toKey v))) ns" for ns
    by (rule Array_sort_sort_key) (simp add: parseInt_def minus_round_nat)
  then show ?thesis
    by (simp add: sortInV8ObjectInsertionOrder_def partition_loop_filter)
qed

lemma insort_key_cong_enat:
  "\<forall>y \<in> set (x # ys). f y = enat (g y) \<Longrightarrow> insort_key f x ys = insort_key g x ys"
  by (induction ys) auto

lemma sort_key_cong_enat:
  "\<forall>y \<in> set xs. f y = enat (g y) \<Longrightarrow> sort_key f xs = sort_key g xs"
proof (induction xs)
  case Nil
  then show ?case by simp
next
  case (Cons x xs)
  then have "sort_key f xs = sort_key g xs" by simp
  moreover have "\<forall>y \<in> set (x # sort_key g xs). f y = enat (g y)"
    using Cons.prems by simp
  ultimately show ?case
    by (simp add: insort_key_cong_enat)
qed

lemma bit_length_2_53:
  "bit_length 9007199254740993 = 54" "bit_length 9007199254740992 = 54"
  by (simp_all add: bit_length.simps)

lemma parseInt_2_53:
  "parseInt ''9007199254740993'' = Finite 9007199254740992"
  "parseInt ''9007199254740992'' = Finite 9007199254740992"
  by (simp_all add: parseInt_def round_nat_def decimal_value_def digit_value_def
      bit_length_2_53 Let_def)

lemma sortInV8_exact:
  assumes "\<forall>v \<in> set vs. looksLikeNatural (toKey v) \<longrightarrow> decimal_value (toKey v) < 2 ^ 53"
  shows "sortInV8ObjectInsertionOrder vs toKey =
     sort_key (\<lambda>v. decimal_value (toKey v)) (filter (\<lambda>v. looksLikeNatural (toKey v)) vs)
     @ filter (\<lambda>v. \<not> looksLikeNatural (toKey v)) vs"
proof -
  have "\<forall>v \<in> set (filter (\<lambda>v. looksLikeNatural (toKey v)) vs).
          number_rank (parseInt (toKey v)) = enat (decimal_value (toKey v))"
    using assms by (simp add: parseInt_def round_nat_exact)
  then have "sort_key (\<lambda>v. number_rank (parseInt (toKey v))) (filter (\<lambda>v. looksLikeNatural (toKey v)) vs)
      = sort_key (\<lambda>v. decimal_value (toKey v)) (filter (\<lambda>v. looksLikeNatural (toKey v)) vs)"
    by (rule sort_key_cong_enat)
  then show ?thesis by (simp add: sortInV8_characterisation)
qed

lemma sortInV8_example:
  "sortInV8ObjectInsertionOrder [''08'', ''2'', ''0'', ''x'', ''1''] id
     = [''0'', ''1'', ''2'', ''08'', ''x'']"
  by (simp add: sortInV8_characterisation looksLikeNatural_def isDigit_def parseInt_def
      round_nat_def decimal_value_def digit_value_def)

text \<open>
  C7, as the code has it. For every input sequence and key function,
  \<open>sortInV8ObjectInsertionOrder\<close> returns the elements whose key matches the natural
  pattern, stably sorted ascending by the number \<open>parseInt\<close> makes of the key, followed
  by the other elements in their original order. The number is the numeric value of
  the key when that is below \<open>2 ^ 53\<close>, so that naturals whose keys are all below
  \<open>2 ^ 53\<close> come out ascending by the numeric value of the key. In particular
  \<open>["08","2","0","x","1"]\<close> with the identity gives \<open>["0","1","2","08","x"]\<close>.
\<close>

theorem sortInV8ObjectInsertionOrder_naturals_then_rest:
  "sortInV8ObjectInsertionOrder vs toKey =
     sort_key (\<lambda>v. number_rank (parseInt (toKey v))) (filter (\<lambda>v. looksLikeNatural (toKey v)) vs)
     @ filter (\<lambda>v. \<not> looksLikeNatural (toKey v)) vs
   \<and> ((\<forall>v \<in> set vs. looksLikeNatural (toKey v) \<longrightarrow> decimal_value (toKey v) < 2 ^ 53) \<longrightarrow>
        sortInV8ObjectInsertionOrder vs toKey =
          sort_key (\<lambda>v. decimal_value (toKey v)) (filter (\<lambda>v. looksLikeNatural (toKey v)) vs)
          @ filter (\<lambda>v. \<not> looksLikeNatural (toKey v)) vs)
   \<and> sortInV8ObjectInsertionOrder [''08'', ''2'', ''0'', ''x'', ''1''] id
        = [''0'', ''1'', ''2'', ''08'', ''x'']"
proof (intro conjI impI)
  show "sortInV8ObjectInsertionOrder vs toKey =
     sort_key (\<lambda>v. number_rank (parseInt (toKey v))) (filter (\<lambda>v. looksLikeNatural (toKey v)) vs)
     @ filter (\<lambda>v. \<not> looksLikeNatural (toKey v)) vs"
    by (rule sortInV8_characterisation)
next
  assume "\<forall>v \<in> set vs. looksLikeNatural (toKey v) \<longrightarrow> decimal_value (toKey v) < 2 ^ 53"
  then show "sortInV8ObjectInsertionOrder vs toKey =
          sort_key (\<lambda>v. decimal_value (toKey v)) (filter (\<lambda>v. looksLikeNatural (toKey v)) vs)
          @ filter (\<lambda>v. \<not> looksLikeNatural (toKey v)) vs"
    by (rule sortInV8_exact)
next
  show "sortInV8ObjectInsertionOrder [''08'', ''2'', ''0'', ''x'', ''1''] id
        = [''0'', ''1'', ''2'', ''08'', ''x'']"
    by (rule sortInV8_example)
qed

text \<open>
  The theorem at \<open>["10","9","a","3"]\<close>: the keys \<open>10\<close>, \<open>9\<close> and \<open>3\<close> are naturals below
  \<open>2 ^ 53\<close> and come out as \<open>3, 9, 10\<close>, not in the order of the strings.
\<close>

theorem sortInV8ObjectInsertionOrder_naturals_then_rest_witness:
  "decimal_value ''10'' < 2 ^ 53 \<and> decimal_value ''9'' < 2 ^ 53 \<and> decimal_value ''3'' < 2 ^ 53
   \<and> \<not> looksLikeNatural ''a''
   \<and> sortInV8ObjectInsertionOrder [''10'', ''9'', ''a'', ''3''] id = [''3'', ''9'', ''10'', ''a'']"
proof -
  have vals: "decimal_value ''10'' = 10" "decimal_value ''9'' = 9" "decimal_value ''3'' = 3"
    by (simp_all add: decimal_value_def digit_value_def)
  have nat: "looksLikeNatural ''10''" "looksLikeNatural ''9''" "looksLikeNatural ''3''"
    "\<not> looksLikeNatural ''a''"
    by (simp_all add: looksLikeNatural_def isDigit_def)
  have hyp: "\<forall>v \<in> set [''10'', ''9'', ''a'', ''3''].
      looksLikeNatural (id v) \<longrightarrow> decimal_value (id v) < 2 ^ 53"
    by (simp add: vals nat)
  from sortInV8ObjectInsertionOrder_naturals_then_rest [of "[''10'', ''9'', ''a'', ''3'']" id] hyp
  have "sortInV8ObjectInsertionOrder [''10'', ''9'', ''a'', ''3''] id =
      sort_key (\<lambda>v. decimal_value (id v)) (filter (\<lambda>v. looksLikeNatural (id v)) [''10'', ''9'', ''a'', ''3''])
      @ filter (\<lambda>v. \<not> looksLikeNatural (id v)) [''10'', ''9'', ''a'', ''3'']"
    by blast
  then have "sortInV8ObjectInsertionOrder [''10'', ''9'', ''a'', ''3''] id = [''3'', ''9'', ''10'', ''a'']"
    by (simp add: vals nat)
  then show ?thesis by (simp add: vals nat)
qed

text \<open>
  C7 as stated fails where \<open>parseInt\<close> rounds: \<open>9007199254740993\<close> is \<open>2 ^ 53 + 1\<close> and
  parses to the same number as \<open>9007199254740992\<close>, the comparison is a tie, and the two
  naturals stay in the order of the input, which is not ascending by the numeric value
  of the key.
\<close>

theorem sortInV8ObjectInsertionOrder_not_ascending_counterexample:
  "looksLikeNatural ''9007199254740993'' \<and> looksLikeNatural ''9007199254740992''
   \<and> decimal_value ''9007199254740992'' < decimal_value ''9007199254740993''
   \<and> sortInV8ObjectInsertionOrder [''9007199254740993'', ''9007199254740992''] id
        = [''9007199254740993'', ''9007199254740992'']"
proof (intro conjI)
  show "looksLikeNatural ''9007199254740993''" "looksLikeNatural ''9007199254740992''"
    by (simp_all add: looksLikeNatural_def isDigit_def)
  show "decimal_value ''9007199254740992'' < decimal_value ''9007199254740993''"
    by (simp add: decimal_value_def digit_value_def)
  show "sortInV8ObjectInsertionOrder [''9007199254740993'', ''9007199254740992''] id
        = [''9007199254740993'', ''9007199254740992'']"
    by (simp add: sortInV8_characterisation looksLikeNatural_def isDigit_def parseInt_2_53)
qed

section \<open>Equality of maps: proofs\<close>

lemma dict_has_map_of: "dict_has d k = (map_of d k \<noteq> None)"
  by (simp add: dict_has_def map_of_eq_None_iff)

lemma someInMap_iff:
  "someInMap ff m p = (\<exists>k. ShimStringMap_has m k \<and> p k (ShimStringMap_get m k))"
proof -
  have "someInMap ff m p = someInMap False m p"
    by (cases ff) (simp_all add: someInMap_strategies)
  also have "\<dots> = (\<exists>k \<in> set (dict_keys (data m)). p k (dict_get (data m) k))"
    by (simp add: someInMap_def ShimStringMap_forEach_def fold_found_iter someInIterator_iff)
  also have "\<dots> = (\<exists>k. ShimStringMap_has m k \<and> p k (ShimStringMap_get m k))"
    by (auto simp: ShimStringMap_has_def ShimStringMap_get_def dict_has_def dict_keys_def)
  finally show ?thesis .
qed

lemma someKeyInMap_iff: "someKeyInMap ff m p = (\<exists>k. ShimStringMap_has m k \<and> p k)"
proof -
  have "someKeyInMap ff m p = someKeyInMap False m p"
    by (cases ff) (simp_all add: someKeyInMap_strategies)
  also have "\<dots> = someInMap False m (\<lambda>key _. p key)"
    by (simp add: someKeyInMap_def)
  finally show ?thesis by (simp add: someInMap_iff)
qed

lemma equalMaps_Ref:
  "equalMaps ff heap (Ref l) (Ref r) cmp =
     (l = r \<or>
      (\<forall>k. ShimStringMap_has (heap l) k \<longrightarrow>
            ShimStringMap_has (heap r) k \<and>
            (case cmp of Some c \<Rightarrow> c (ShimStringMap_get (heap l) k) (ShimStringMap_get (heap r) k)
                       | None \<Rightarrow> strict_eq (ShimStringMap_get (heap l) k) (ShimStringMap_get (heap r) k)))
      \<and> (\<forall>k. ShimStringMap_has (heap r) k \<longrightarrow> ShimStringMap_has (heap l) k))"
  by (auto simp: equalMaps_def someInMap_iff someKeyInMap_iff Let_def)

lemma equalMaps_absent:
  "equalMaps ff heap RefUndefined right cmp = (right = RefUndefined)"
  "equalMaps ff heap RefNull right cmp = (right = RefNull)"
  "equalMaps ff heap left RefUndefined cmp = (left = RefUndefined)"
  "equalMaps ff heap left RefNull cmp = (left = RefNull)"
  by (auto simp: equalMaps_def split: reference.splits)


lemma strict_eq_sym: "strict_eq a b = strict_eq b a"
  by (auto simp: strict_eq_def)

lemma equalMaps_characterisation:
  "equalMaps ff heap left right cmp =
     (left = right \<or>
      (\<exists>l r. left = Ref l \<and> right = Ref r
         \<and> (\<forall>k. ShimStringMap_has (heap l) k \<longrightarrow>
               ShimStringMap_has (heap r) k \<and>
               (case cmp of
                  Some c \<Rightarrow> c (ShimStringMap_get (heap l) k) (ShimStringMap_get (heap r) k)
                | None \<Rightarrow> strict_eq (ShimStringMap_get (heap l) k) (ShimStringMap_get (heap r) k)))
         \<and> (\<forall>k. ShimStringMap_has (heap r) k \<longrightarrow> ShimStringMap_has (heap l) k)))"
proof (cases left)
  case RefUndefined
  then show ?thesis by (auto simp: equalMaps_absent)
next
  case RefNull
  then show ?thesis by (auto simp: equalMaps_absent)
next
  case l: (Ref l)
  show ?thesis
  proof (cases right)
    case RefUndefined
    with l show ?thesis by (simp add: equalMaps_absent)
  next
    case RefNull
    with l show ?thesis by (simp add: equalMaps_absent)
  next
    case (Ref r)
    with l show ?thesis by (simp add: equalMaps_Ref)
  qed
qed

lemma equalMaps_symmetric: "equalMaps ff heap a b None = equalMaps ff heap b a None"
proof (cases a)
  case RefUndefined
  then show ?thesis by (auto simp: equalMaps_absent)
next
  case RefNull
  then show ?thesis by (auto simp: equalMaps_absent)
next
  case l: (Ref l)
  show ?thesis
  proof (cases b)
    case RefUndefined
    with l show ?thesis by (simp add: equalMaps_absent)
  next
    case RefNull
    with l show ?thesis by (simp add: equalMaps_absent)
  next
    case (Ref r)
    have "equalMaps ff heap (Ref l) (Ref r) None \<Longrightarrow> equalMaps ff heap (Ref r) (Ref l) None" for l r
      unfolding equalMaps_Ref by (auto simp: strict_eq_sym)
    then have "equalMaps ff heap (Ref l) (Ref r) None = equalMaps ff heap (Ref r) (Ref l) None"
      by blast
    with l Ref show ?thesis by simp
  qed
qed

lemma map_of_fold_dict_set:
  "map_of (fold (\<lambda>key d. if P key then dict_set key (g key) d else d) ks d0) k =
     (if k \<in> set ks \<and> P k then Some (g k) else map_of d0 k)"
  by (induction ks arbitrary: d0) (auto simp: map_of_dict_set)

lemma data_fold_set:
  "data (fold (\<lambda>key m. if P key then ShimStringMap_set key (g key) m else m) ks m0) =
     fold (\<lambda>key d. if P key then dict_set key (g key) d else d) ks (data m0)"
  by (induction ks arbitrary: m0) (simp_all add: ShimStringMap_set_def)

lemma map_of_mapOfMapLike:
  "map_of (data (mapOfMapLike object)) k =
     (if hasOwnProperty object k then Some (dict_get (own object) k) else None)"
proof -
  have "hasOwnProperty object k \<Longrightarrow> k \<in> set (forIn_keys object)"
    by (simp add: hasOwnProperty_def forIn_keys_def dict_has_def dict_keys_def)
  then show ?thesis
    by (auto simp: mapOfMapLike_def data_fold_set map_of_fold_dict_set hasProperty_def
        ShimStringMap_new_def createDictionaryModeObject_empty MapLike_get_def hasOwnProperty_def)
qed

lemma map_of_mapLikeOfMap:
  "map_of (own (mapLikeOfMap m)) k =
     (if ShimStringMap_has m k then Some (ShimStringMap_get m k) else None)"
proof -
  have "map_of (fold (\<lambda>key d. if True then dict_set key (dict_get (data m) key) d else d)
           (dict_keys (data m)) []) k =
        (if k \<in> set (dict_keys (data m)) \<and> True then Some (dict_get (data m) k) else map_of [] k)"
    by (rule map_of_fold_dict_set)
  then show ?thesis
    by (simp add: mapLikeOfMap_def ShimStringMap_forEach_def createDictionaryModeObject_empty
        ShimStringMap_has_def ShimStringMap_get_def dict_has_def dict_keys_def)
qed

lemma hasOwnProperty_mapLikeOfMap:
  "hasOwnProperty (mapLikeOfMap m) k = ShimStringMap_has m k"
  by (simp add: hasOwnProperty_def dict_has_map_of map_of_mapLikeOfMap)

lemma own_get_mapLikeOfMap:
  "dict_get (own (mapLikeOfMap m)) k = ShimStringMap_get m k"
  by (simp add: dict_get_def map_of_mapLikeOfMap ShimStringMap_get_def ShimStringMap_has_def
      dict_has_map_of split: option.splits)

lemma has_mapOfMapLike:
  "ShimStringMap_has (mapOfMapLike object) k = hasOwnProperty object k"
  by (simp add: ShimStringMap_has_def dict_has_map_of map_of_mapOfMapLike)

lemma get_mapOfMapLike:
  "ShimStringMap_get (mapOfMapLike object) k = getProperty object k"
  by (simp add: ShimStringMap_get_def dict_get_def map_of_mapOfMapLike getProperty_def
      MapLike_get_def hasOwnProperty_def)

lemma get_absent: "\<not> ShimStringMap_has m k \<Longrightarrow> ShimStringMap_get m k = Undefined"
  by (simp add: ShimStringMap_has_def ShimStringMap_get_def dict_has_map_of dict_get_def)

lemma map_round_trip_has:
  "ShimStringMap_has (mapOfMapLike (mapLikeOfMap m)) k = ShimStringMap_has m k"
  by (simp add: has_mapOfMapLike hasOwnProperty_mapLikeOfMap)

lemma map_round_trip_get:
  "ShimStringMap_get (mapOfMapLike (mapLikeOfMap m)) k = ShimStringMap_get m k"
  by (simp add: get_mapOfMapLike getProperty_def hasOwnProperty_mapLikeOfMap MapLike_get_def
      own_get_mapLikeOfMap get_absent dict_has_map_of map_of_mapLikeOfMap)

lemma record_round_trip_has:
  "hasProperty (mapLikeOfMap (mapOfMapLike r)) k = hasProperty r k"
  by (simp add: hasProperty_def hasOwnProperty_mapLikeOfMap has_mapOfMapLike)

lemma record_round_trip_get:
  "getProperty (mapLikeOfMap (mapOfMapLike r)) k = getProperty r k"
  by (simp add: getProperty_def hasOwnProperty_mapLikeOfMap has_mapOfMapLike MapLike_get_def
      own_get_mapLikeOfMap get_mapOfMapLike dict_has_map_of map_of_mapLikeOfMap hasOwnProperty_def)

lemma equalMaps_round_trip:
  assumes "\<forall>k. ShimStringMap_get (heap a) k \<noteq> Value PNaN"
  shows "equalMaps ff (heap(b := mapOfMapLike (mapLikeOfMap (heap a)))) (Ref b) (Ref a) None"
proof (cases "b = a")
  case True
  then show ?thesis by (simp add: equalMaps_Ref)
next
  case False
  then show ?thesis
    using assms by (simp add: equalMaps_Ref map_round_trip_has map_round_trip_get strict_eq_def)
qed


text \<open>
  C3. \<open>_equalMaps(left, right)\<close> is true exactly when \<open>left\<close> and \<open>right\<close> are the same
  reference, or both are maps, every key of \<open>left\<close> is a key of \<open>right\<close> with an equal
  value (\<open>===\<close>, or the comparator that was passed), and every key of \<open>right\<close> is a key
  of \<open>left\<close>; when one argument is \<open>undefined\<close> or \<open>null\<close> and the other is not the same,
  it is false. With the default comparator \<open>_equalMaps\<close> is symmetric.
\<close>

theorem equalMaps_iff_same_entries:
  "equalMaps ff heap left right cmp =
     (left = right \<or>
      (\<exists>l r. left = Ref l \<and> right = Ref r
         \<and> (\<forall>k. ShimStringMap_has (heap l) k \<longrightarrow>
               ShimStringMap_has (heap r) k \<and>
               (case cmp of
                  Some c \<Rightarrow> c (ShimStringMap_get (heap l) k) (ShimStringMap_get (heap r) k)
                | None \<Rightarrow> strict_eq (ShimStringMap_get (heap l) k) (ShimStringMap_get (heap r) k)))
         \<and> (\<forall>k. ShimStringMap_has (heap r) k \<longrightarrow> ShimStringMap_has (heap l) k)))
   \<and> equalMaps ff heap a b None = equalMaps ff heap b a None"
proof
  show "equalMaps ff heap left right cmp =
     (left = right \<or>
      (\<exists>l r. left = Ref l \<and> right = Ref r
         \<and> (\<forall>k. ShimStringMap_has (heap l) k \<longrightarrow>
               ShimStringMap_has (heap r) k \<and>
               (case cmp of
                  Some c \<Rightarrow> c (ShimStringMap_get (heap l) k) (ShimStringMap_get (heap r) k)
                | None \<Rightarrow> strict_eq (ShimStringMap_get (heap l) k) (ShimStringMap_get (heap r) k)))
         \<and> (\<forall>k. ShimStringMap_has (heap r) k \<longrightarrow> ShimStringMap_has (heap l) k)))"
    by (rule equalMaps_characterisation)
  show "equalMaps ff heap a b None = equalMaps ff heap b a None"
    by (rule equalMaps_symmetric)
qed

text \<open>
  The theorem at two maps that hold \<open>x: 1\<close> and \<open>y: undefined\<close> in different orders, and
  at a map and \<open>undefined\<close>.
\<close>

theorem equalMaps_iff_same_entries_witness:
  "equalMaps False
     (\<lambda>a. if a = 0 then \<lparr>data = [(''x'', Value (PNumber 1)), (''y'', Undefined)]\<rparr>
          else \<lparr>data = [(''y'', Undefined), (''x'', Value (PNumber 1))]\<rparr>)
     (Ref 0) (Ref 1) None
   \<and> \<not> equalMaps False
     (\<lambda>a. if a = 0 then \<lparr>data = [(''x'', Value (PNumber 1)), (''y'', Undefined)]\<rparr>
          else \<lparr>data = [(''y'', Undefined), (''x'', Value (PNumber 1))]\<rparr>)
     (Ref 0) RefUndefined None"
proof -
  let ?h = "\<lambda>a::nat. if a = 0 then \<lparr>data = [(''x'', Value (PNumber 1)), (''y'', Undefined)]\<rparr>
          else \<lparr>data = [(''y'', Undefined), (''x'', Value (PNumber 1))]\<rparr>"
  have left: "\<forall>k. ShimStringMap_has (?h 0) k \<longrightarrow>
      ShimStringMap_has (?h 1) k \<and> strict_eq (ShimStringMap_get (?h 0) k) (ShimStringMap_get (?h 1) k)"
    by (auto simp: ShimStringMap_has_def ShimStringMap_get_def dict_has_def dict_get_def strict_eq_def)
  have right: "\<forall>k. ShimStringMap_has (?h 1) k \<longrightarrow> ShimStringMap_has (?h 0) k"
    by (auto simp: ShimStringMap_has_def dict_has_def)
  have "equalMaps False ?h (Ref 0) (Ref 1) None"
    using equalMaps_iff_same_entries [of False ?h "Ref 0" "Ref 1" None "Ref 0" "Ref 1"] left right
    by simp
  moreover have "\<not> equalMaps False ?h (Ref 0) RefUndefined None"
    using equalMaps_iff_same_entries [of False ?h "Ref 0" RefUndefined None "Ref 0" "Ref 1"]
    by simp
  ultimately show ?thesis by simp
qed

text \<open>
  C10, as the code has it. For a map \<open>m\<close> that holds no \<open>NaN\<close>,
  \<open>mapOfMapLike(mapLikeOfMap(m))\<close> is equal to \<open>m\<close> under \<open>_equalMaps\<close>. For every
  map the round trip gives a map with the same keys and the same values, and for every
  record \<open>r\<close>, \<open>mapLikeOfMap(mapOfMapLike(r))\<close> has the own fields of \<open>r\<close> with the values
  they have in \<open>r\<close>.
\<close>

theorem map_record_round_trip:
  "((\<forall>k. ShimStringMap_get (heap a) k \<noteq> Value PNaN) \<longrightarrow>
        equalMaps ff (heap(b := mapOfMapLike (mapLikeOfMap (heap a)))) (Ref b) (Ref a) None)
   \<and> (\<forall>k. ShimStringMap_has (mapOfMapLike (mapLikeOfMap m)) k = ShimStringMap_has m k
          \<and> ShimStringMap_get (mapOfMapLike (mapLikeOfMap m)) k = ShimStringMap_get m k)
   \<and> (\<forall>k. hasProperty (mapLikeOfMap (mapOfMapLike r)) k = hasProperty r k
          \<and> getProperty (mapLikeOfMap (mapOfMapLike r)) k = getProperty r k)"
proof (intro conjI impI allI)
  assume "\<forall>k. ShimStringMap_get (heap a) k \<noteq> Value PNaN"
  then show "equalMaps ff (heap(b := mapOfMapLike (mapLikeOfMap (heap a)))) (Ref b) (Ref a) None"
    by (rule equalMaps_round_trip)
next
  fix k
  show "ShimStringMap_has (mapOfMapLike (mapLikeOfMap m)) k = ShimStringMap_has m k"
    by (rule map_round_trip_has)
  show "ShimStringMap_get (mapOfMapLike (mapLikeOfMap m)) k = ShimStringMap_get m k"
    by (rule map_round_trip_get)
  show "hasProperty (mapLikeOfMap (mapOfMapLike r)) k = hasProperty r k"
    by (rule record_round_trip_has)
  show "getProperty (mapLikeOfMap (mapOfMapLike r)) k = getProperty r k"
    by (rule record_round_trip_get)
qed

text \<open>The theorem at the map that holds \<open>x: 1\<close> and \<open>y: undefined\<close>.\<close>

theorem map_record_round_trip_witness:
  "equalMaps True
     ((\<lambda>a. \<lparr>data = [(''x'', Value (PNumber 1)), (''y'', Undefined)]\<rparr>)
        (1 := mapOfMapLike (mapLikeOfMap \<lparr>data = [(''x'', Value (PNumber 1)), (''y'', Undefined)]\<rparr>)))
     (Ref 1) (Ref 0) None"
proof -
  let ?m = "\<lparr>data = [(''x'', Value (PNumber 1)), (''y'', Undefined)]\<rparr>"
  have "\<forall>k. ShimStringMap_get ((\<lambda>a::nat. ?m) 0) k \<noteq> Value PNaN"
    by (simp add: ShimStringMap_get_def dict_get_def)
  with map_record_round_trip [where heap = "\<lambda>a. ?m" and a = 0 and ff = True and b = 1
      and m = ?m and r = "mapLikeOfMap ?m"]
  show ?thesis by simp
qed

text \<open>
  C10 as stated fails at the map that holds \<open>x: NaN\<close>: the round trip stores \<open>NaN\<close>
  under \<open>x\<close> again, and \<open>NaN === NaN\<close> is false.
\<close>

theorem map_round_trip_NaN_counterexample:
  "\<not> equalMaps False
     ((\<lambda>a. \<lparr>data = [(''x'', Value PNaN)]\<rparr>)
        (1 := mapOfMapLike (mapLikeOfMap \<lparr>data = [(''x'', Value PNaN)]\<rparr>)))
     (Ref 1) (Ref 0) None"
proof -
  let ?m = "\<lparr>data = [(''x'', Value PNaN)]\<rparr>"
  have "ShimStringMap_has ?m ''x''"
    by (simp add: ShimStringMap_has_def dict_has_def)
  then have has: "ShimStringMap_has (mapOfMapLike (mapLikeOfMap ?m)) ''x''"
    by (simp only: map_round_trip_has)
  have "ShimStringMap_get ?m ''x'' = Value PNaN"
    by (simp add: ShimStringMap_get_def dict_get_def)
  then have "ShimStringMap_get (mapOfMapLike (mapLikeOfMap ?m)) ''x'' = Value PNaN"
    by (simp only: map_round_trip_get)
  then have "\<not> strict_eq (ShimStringMap_get (mapOfMapLike (mapLikeOfMap ?m)) ''x'')
      (ShimStringMap_get ?m ''x'')"
    by (simp add: strict_eq_def)
  with has show ?thesis
    by (auto simp: equalMaps_Ref)
qed

section \<open>Equality of the own properties of records: proofs\<close>

text \<open>
  C4. \<open>equalOwnProperties\<close> should be true exactly when the two records have the same
  own keys with equal values, and so be symmetric. The code is not: for
  \<open>left = {a: undefined}\<close> and \<open>right = {}\<close> it returns true, although \<open>a\<close> is an own key
  of \<open>left\<close> and not of \<open>right\<close>, and with the arguments exchanged it returns false.
\<close>

theorem equalOwnProperties_not_symmetric:
  "equalOwnProperties
     (\<lambda>a. if a = 0 then \<lparr>own = [(''a'', Undefined)], inherited = []\<rparr> else \<lparr>own = [], inherited = []\<rparr>)
     (Ref 0) (Ref 1) None
   \<and> \<not> equalOwnProperties
     (\<lambda>a. if a = 0 then \<lparr>own = [(''a'', Undefined)], inherited = []\<rparr> else \<lparr>own = [], inherited = []\<rparr>)
     (Ref 1) (Ref 0) None
   \<and> hasOwnProperty \<lparr>own = [(''a'', Undefined :: prim jsval)], inherited = []\<rparr> ''a''
   \<and> \<not> hasOwnProperty \<lparr>own = ([] :: prim dict), inherited = []\<rparr> ''a''"
  by (simp add: equalOwnProperties_def forIn_keys_def dict_keys_def hasOwnProperty_def
      dict_has_def MapLike_get_def dict_get_def strict_eq_def)

section \<open>Multimaps: proofs\<close>

lemma mset_last_butlast: "xs \<noteq> [] \<Longrightarrow> add_mset (last xs) (mset (butlast xs)) = mset xs"
proof -
  assume "xs \<noteq> []"
  then have "mset xs = mset (butlast xs @ [last xs])" by simp
  also have "\<dots> = add_mset (last xs) (mset (butlast xs))"
    by (simp del: append_butlast_last_id)
  finally show ?thesis by simp
qed

lemma unorderedRemoveItem_mset:
  "x \<in> set xs \<Longrightarrow> mset (unorderedRemoveItem xs x) = mset xs - {#x#}"
  by (induction xs) (auto simp: mset_last_butlast)

lemma unorderedRemoveItem_absent: "x \<notin> set xs \<Longrightarrow> unorderedRemoveItem xs x = xs"
  by (induction xs) auto

lemma unorderedRemoveItem_removes_one: "removes_one_occurrence unorderedRemoveItem"
  by (simp add: removes_one_occurrence_def unorderedRemoveItem_mset unorderedRemoveItem_absent)

lemma dict_set_same: "map_of d key = Some v \<Longrightarrow> dict_set key v d = d"
  by (induction d) (auto split: if_splits)

lemma get_Value_map_of:
  "ShimStringMap_get m k = Value vs \<Longrightarrow> map_of (data m) k = Some (Value vs)"
  by (auto simp: ShimStringMap_get_def dict_get_def split: option.splits)

lemma set_same: "ShimStringMap_get m k = Value vs \<Longrightarrow> ShimStringMap_set k (Value vs) m = m"
  by (simp add: ShimStringMap_set_def dict_set_same get_Value_map_of)

lemma get_set: "ShimStringMap_get (ShimStringMap_set key v m) k = (if k = key then v else ShimStringMap_get m k)"
  by (simp add: ShimStringMap_get_def ShimStringMap_set_def dict_get_set)

lemma has_set: "ShimStringMap_has (ShimStringMap_set key v m) k = (k = key \<or> ShimStringMap_has m k)"
  by (simp add: ShimStringMap_has_def ShimStringMap_set_def dict_has_set)

lemma get_delete:
  "ShimStringMap_get (ShimStringMap_delete key m) k = (if k = key then Undefined else ShimStringMap_get m k)"
  by (simp add: ShimStringMap_get_def ShimStringMap_delete_def dict_get_delete)

lemma has_delete:
  "ShimStringMap_has (ShimStringMap_delete key m) k = (k \<noteq> key \<and> ShimStringMap_has m k)"
  by (simp add: ShimStringMap_has_def ShimStringMap_delete_def dict_has_delete)

lemma multiMapAdd_present:
  "ShimStringMap_get m k = Value values \<Longrightarrow>
     fst (multiMapAdd m k v) = Value (values @ [v])
     \<and> ShimStringMap_get (snd (multiMapAdd m k v)) k = Value (values @ [v])"
  by (simp add: multiMapAdd_def Let_def get_set)

lemma multiMapAdd_absent:
  "ShimStringMap_get m k = Undefined \<Longrightarrow>
     fst (multiMapAdd m k v) = Value [v]
     \<and> ShimStringMap_get (snd (multiMapAdd m k v)) k = Value [v]"
  by (simp add: multiMapAdd_def setAndReturn_def Let_def get_set)

lemma multiMapRemove_present:
  assumes "removes_one_occurrence rm" "ShimStringMap_get m k = Value values" "v \<in> set values"
  shows "rm values v \<noteq> [] \<Longrightarrow> ShimStringMap_get (multiMapRemove rm m k v) k = Value (rm values v)"
    and "rm values v = [] \<Longrightarrow> \<not> ShimStringMap_has (multiMapRemove rm m k v) k"
  using assms by (simp_all add: removes_one_occurrence_def multiMapRemove_def Let_def get_set has_delete)

lemma multiMapRemove_absent_key:
  "ShimStringMap_get m k = Undefined \<Longrightarrow> multiMapRemove rm m k v = m"
  by (simp add: multiMapRemove_def)

lemma multiMapRemove_absent_value:
  assumes "removes_one_occurrence rm" "ShimStringMap_get m k = Value values" "v \<notin> set values"
  shows "values \<noteq> [] \<Longrightarrow> multiMapRemove rm m k v = m"
    and "values = [] \<Longrightarrow> \<not> ShimStringMap_has (multiMapRemove rm m k v) k"
  using assms by (simp_all add: removes_one_occurrence_def multiMapRemove_def Let_def set_same has_delete)

text \<open>
  What the two functions do for every multimap. \<open>multiMapAdd(m, k, v)\<close> appends \<open>v\<close> to
  the list of \<open>k\<close> when there is one, and stores \<open>[v]\<close> otherwise; it returns the list.
  With an \<open>unorderedRemoveItem\<close> that removes one occurrence, \<open>multiMapRemove(m, k, v)\<close>
  removes one occurrence of \<open>v\<close> from the list of \<open>k\<close>, and deletes \<open>k\<close> when the list
  is empty after that. With an absent key it leaves the map unchanged, and so it does
  with a value that is not in the list of the key when that list is not empty; an
  empty list under the key is deleted with its key.
\<close>

theorem multiMapAdd_appends_multiMapRemove_removes_one:
  "(\<forall>values. ShimStringMap_get m k = Value values \<longrightarrow>
        fst (multiMapAdd m k v) = Value (values @ [v])
        \<and> ShimStringMap_get (snd (multiMapAdd m k v)) k = Value (values @ [v]))
   \<and> (ShimStringMap_get m k = Undefined \<longrightarrow>
        fst (multiMapAdd m k v) = Value [v]
        \<and> ShimStringMap_get (snd (multiMapAdd m k v)) k = Value [v])
   \<and> (ShimStringMap_get m k = Undefined \<longrightarrow> multiMapRemove rm m k v = m)
   \<and> (removes_one_occurrence rm \<longrightarrow>
        (\<forall>values. ShimStringMap_get m k = Value values \<and> v \<in> set values \<longrightarrow>
            mset (rm values v) = mset values - {#v#}
            \<and> (rm values v \<noteq> [] \<longrightarrow>
                  ShimStringMap_get (multiMapRemove rm m k v) k = Value (rm values v))
            \<and> (rm values v = [] \<longrightarrow> \<not> ShimStringMap_has (multiMapRemove rm m k v) k))
        \<and> (\<forall>values. ShimStringMap_get m k = Value values \<and> v \<notin> set values \<longrightarrow>
              (values \<noteq> [] \<longrightarrow> multiMapRemove rm m k v = m)
              \<and> (values = [] \<longrightarrow> \<not> ShimStringMap_has (multiMapRemove rm m k v) k)))"
proof -
  have add_present: "\<forall>values. ShimStringMap_get m k = Value values \<longrightarrow>
        fst (multiMapAdd m k v) = Value (values @ [v])
        \<and> ShimStringMap_get (snd (multiMapAdd m k v)) k = Value (values @ [v])"
    by (simp add: multiMapAdd_present)
  have add_absent: "ShimStringMap_get m k = Undefined \<longrightarrow>
        fst (multiMapAdd m k v) = Value [v]
        \<and> ShimStringMap_get (snd (multiMapAdd m k v)) k = Value [v]"
    by (simp add: multiMapAdd_absent)
  have remove_absent_key: "ShimStringMap_get m k = Undefined \<longrightarrow> multiMapRemove rm m k v = m"
    by (simp add: multiMapRemove_absent_key)
  have remove_present: "\<forall>values. ShimStringMap_get m k = Value values \<and> v \<in> set values \<longrightarrow>
            mset (rm values v) = mset values - {#v#}
            \<and> (rm values v \<noteq> [] \<longrightarrow>
                  ShimStringMap_get (multiMapRemove rm m k v) k = Value (rm values v))
            \<and> (rm values v = [] \<longrightarrow> \<not> ShimStringMap_has (multiMapRemove rm m k v) k)"
    if rm: "removes_one_occurrence rm"
  proof (intro allI impI)
    fix vs
    assume present: "ShimStringMap_get m k = Value vs \<and> v \<in> set vs"
    have "mset (rm vs v) = mset vs - {#v#}"
      using rm present by (simp add: removes_one_occurrence_def)
    moreover have "rm vs v \<noteq> [] \<longrightarrow>
        ShimStringMap_get (multiMapRemove rm m k v) k = Value (rm vs v)"
      using rm present by (simp add: multiMapRemove_present(1))
    moreover have "rm vs v = [] \<longrightarrow> \<not> ShimStringMap_has (multiMapRemove rm m k v) k"
      using rm present by (simp add: multiMapRemove_present(2))
    ultimately show "mset (rm vs v) = mset vs - {#v#}
        \<and> (rm vs v \<noteq> [] \<longrightarrow> ShimStringMap_get (multiMapRemove rm m k v) k = Value (rm vs v))
        \<and> (rm vs v = [] \<longrightarrow> \<not> ShimStringMap_has (multiMapRemove rm m k v) k)"
      by simp
  qed
  have remove_absent_value: "\<forall>values. ShimStringMap_get m k = Value values \<and> v \<notin> set values \<longrightarrow>
              (values \<noteq> [] \<longrightarrow> multiMapRemove rm m k v = m)
              \<and> (values = [] \<longrightarrow> \<not> ShimStringMap_has (multiMapRemove rm m k v) k)"
    if rm: "removes_one_occurrence rm"
  proof (intro allI impI)
    fix vs
    assume absent: "ShimStringMap_get m k = Value vs \<and> v \<notin> set vs"
    have "vs \<noteq> [] \<longrightarrow> multiMapRemove rm m k v = m"
      using rm absent by (simp add: multiMapRemove_absent_value(1))
    moreover have "vs = [] \<longrightarrow> \<not> ShimStringMap_has (multiMapRemove rm m k v) k"
      using rm absent multiMapRemove_absent_value(2) [of rm m k vs v] by simp
    ultimately show "(vs \<noteq> [] \<longrightarrow> multiMapRemove rm m k v = m)
        \<and> (vs = [] \<longrightarrow> \<not> ShimStringMap_has (multiMapRemove rm m k v) k)"
      by simp
  qed
  from add_present add_absent remove_absent_key remove_present remove_absent_value
  show ?thesis by blast
qed


text \<open>
  The theorem with the \<open>unorderedRemoveItem\<close> above: adding \<open>2\<close> to \<open>a: [1]\<close>, removing
  \<open>1\<close> from \<open>a: [1, 2]\<close>, removing \<open>2\<close> from \<open>a: [2]\<close> and removing \<open>3\<close> from
  \<open>a: [1, 2]\<close>.
\<close>

theorem multiMapAdd_appends_multiMapRemove_removes_one_witness:
  "ShimStringMap_get (snd (multiMapAdd \<lparr>data = [(''a'', Value [1::nat])]\<rparr> ''a'' 2)) ''a'' = Value [1, 2]
   \<and> ShimStringMap_get
         (multiMapRemove unorderedRemoveItem \<lparr>data = [(''a'', Value [1::nat, 2])]\<rparr> ''a'' 1) ''a''
       = Value [2]
   \<and> \<not> ShimStringMap_has
         (multiMapRemove unorderedRemoveItem \<lparr>data = [(''a'', Value [2::nat])]\<rparr> ''a'' 2) ''a''
   \<and> multiMapRemove unorderedRemoveItem \<lparr>data = [(''a'', Value [1::nat, 2])]\<rparr> ''a'' 3
       = \<lparr>data = [(''a'', Value [1, 2])]\<rparr>"
proof -
  let ?m1 = "\<lparr>data = [(''a'', Value [1::nat])]\<rparr>"
  let ?m12 = "\<lparr>data = [(''a'', Value [1::nat, 2])]\<rparr>"
  let ?m2 = "\<lparr>data = [(''a'', Value [2::nat])]\<rparr>"
  note rm = unorderedRemoveItem_removes_one
  have get1: "ShimStringMap_get ?m1 ''a'' = Value [1]"
    and get12: "ShimStringMap_get ?m12 ''a'' = Value [1, 2]"
    and get2: "ShimStringMap_get ?m2 ''a'' = Value [2]"
    by (simp_all add: ShimStringMap_get_def dict_get_def)
  have "ShimStringMap_get (snd (multiMapAdd ?m1 ''a'' 2)) ''a'' = Value [1, 2]"
    using multiMapAdd_appends_multiMapRemove_removes_one [of ?m1 "''a''" 2 unorderedRemoveItem] get1
    by simp
  moreover have "ShimStringMap_get (multiMapRemove unorderedRemoveItem ?m12 ''a'' 1) ''a'' = Value [2]"
  proof -
    from multiMapAdd_appends_multiMapRemove_removes_one [of ?m12 "''a''" 1 unorderedRemoveItem] rm
    have "\<forall>values. ShimStringMap_get ?m12 ''a'' = Value values \<and> 1 \<in> set values \<longrightarrow>
        (unorderedRemoveItem values 1 \<noteq> [] \<longrightarrow>
           ShimStringMap_get (multiMapRemove unorderedRemoveItem ?m12 ''a'' 1) ''a''
             = Value (unorderedRemoveItem values 1))"
      by blast
    with get12 show ?thesis by simp
  qed
  moreover have "\<not> ShimStringMap_has (multiMapRemove unorderedRemoveItem ?m2 ''a'' 2) ''a''"
  proof -
    from multiMapAdd_appends_multiMapRemove_removes_one [of ?m2 "''a''" 2 unorderedRemoveItem] rm
    have "\<forall>values. ShimStringMap_get ?m2 ''a'' = Value values \<and> 2 \<in> set values \<longrightarrow>
        (unorderedRemoveItem values 2 = [] \<longrightarrow>
           \<not> ShimStringMap_has (multiMapRemove unorderedRemoveItem ?m2 ''a'' 2) ''a'')"
      by blast
    with get2 show ?thesis by simp
  qed
  moreover have "multiMapRemove unorderedRemoveItem ?m12 ''a'' 3 = ?m12"
  proof -
    from multiMapAdd_appends_multiMapRemove_removes_one [of ?m12 "''a''" 3 unorderedRemoveItem] rm
    have "\<forall>values. ShimStringMap_get ?m12 ''a'' = Value values \<and> 3 \<notin> set values \<longrightarrow>
        (values \<noteq> [] \<longrightarrow> multiMapRemove unorderedRemoveItem ?m12 ''a'' 3 = ?m12)"
      by blast
    with get12 show ?thesis by simp
  qed
  ultimately show ?thesis by simp
qed

text \<open>
  C8. \<open>multiMapAdd\<close> appends to the list of a key or stores a new list, and
  \<open>multiMapRemove\<close> removes one occurrence and deletes the key of a list that became
  empty, as the theorem above says. \<open>multiMapRemove\<close> with a value that is not in the list
  of the key should leave the map unchanged; the comment on the function says that it
  "does nothing" then. It does not at the map \<open>k: []\<close>: \<open>1\<close> is not in the list of \<open>k\<close>,
  and \<open>multiMapRemove\<close> deletes \<open>k\<close>.
\<close>

theorem multiMapRemove_deletes_key_of_empty_list:
  "ShimStringMap_get \<lparr>data = [(''k'', Value ([] :: nat list))]\<rparr> ''k'' = Value []
   \<and> (1::nat) \<notin> set []
   \<and> multiMapRemove unorderedRemoveItem \<lparr>data = [(''k'', Value [])]\<rparr> ''k'' (1::nat)
       \<noteq> \<lparr>data = [(''k'', Value [])]\<rparr>
   \<and> multiMapRemove unorderedRemoveItem \<lparr>data = [(''k'', Value [])]\<rparr> ''k'' (1::nat)
       = \<lparr>data = []\<rparr>"
  by (simp add: multiMapRemove_def ShimStringMap_get_def ShimStringMap_set_def
      ShimStringMap_delete_def dict_get_def dict_delete_def)

section \<open>The fallback string set: proofs\<close>

lemma size_counts_members_new: "size_counts_members ShimSet_new"
  by (simp add: size_counts_members_def ShimSet_new_def createDictionaryModeObject_empty
      dict_keys_def)

lemma size_counts_members_add:
  assumes "size_counts_members s"
  shows "size_counts_members (ShimSet_add v s)"
proof (cases "ShimSet_has s v")
  case True
  with assms show ?thesis by (simp add: ShimSet_add_def)
next
  case False
  then have "v \<notin> fst ` set (ShimSet_data s)"
    by (simp add: ShimSet_has_def dict_has_def)
  then have "card (insert v (fst ` set (ShimSet_data s))) = Suc (card (fst ` set (ShimSet_data s)))"
    by simp
  with assms False show ?thesis
    by (simp add: ShimSet_add_def size_counts_members_def dict_keys_def keys_dict_set)
qed

lemma size_counts_members_delete:
  assumes "size_counts_members s"
  shows "size_counts_members (ShimSet_delete v s)"
proof (cases "ShimSet_has s v")
  case False
  with assms show ?thesis by (simp add: ShimSet_delete_def)
next
  case True
  then have mem: "v \<in> fst ` set (ShimSet_data s)"
    by (simp add: ShimSet_has_def dict_has_def)
  then have "card (fst ` set (ShimSet_data s) - {v}) = card (fst ` set (ShimSet_data s)) - 1"
    by simp
  moreover have "0 < card (fst ` set (ShimSet_data s))"
    using mem by (auto simp: card_gt_0_iff)
  ultimately show ?thesis
    using assms True
    by (simp add: ShimSet_delete_def size_counts_members_def dict_keys_def keys_dict_delete)
qed

text \<open>
  C6. In \<open>ShimSet\<close>, \<open>size\<close> is the number of distinct members: it is so for a new set
  and every \<open>add\<close> and \<open>delete\<close> keeps it so. Adding a member that is there changes
  nothing, adding a new member adds one to \<open>size\<close>, deleting a member that is there
  takes one from \<open>size\<close>, and deleting one that is not there changes nothing.
\<close>

theorem ShimSet_size_counts_members:
  "size_counts_members ShimSet_new
   \<and> (size_counts_members s \<longrightarrow>
        size_counts_members (ShimSet_add v s) \<and> size_counts_members (ShimSet_delete v s))
   \<and> (ShimSet_has s v \<longrightarrow> ShimSet_add v s = s)
   \<and> ShimSet_add v (ShimSet_add v s) = ShimSet_add v s
   \<and> ShimSet_has (ShimSet_add v s) v
   \<and> (\<not> ShimSet_has s v \<longrightarrow> ShimSet_size (ShimSet_add v s) = ShimSet_size s + 1)
   \<and> (ShimSet_has s v \<longrightarrow> ShimSet_size (ShimSet_delete v s) = ShimSet_size s - 1)
   \<and> \<not> ShimSet_has (ShimSet_delete v s) v
   \<and> (\<not> ShimSet_has s v \<longrightarrow> ShimSet_delete v s = s)"
proof (intro conjI impI)
  show "size_counts_members ShimSet_new"
    by (rule size_counts_members_new)
  show "size_counts_members (ShimSet_add v s)" if "size_counts_members s"
    using that by (rule size_counts_members_add)
  show "size_counts_members (ShimSet_delete v s)" if "size_counts_members s"
    using that by (rule size_counts_members_delete)
  show "ShimSet_add v s = s" if "ShimSet_has s v"
    using that by (simp add: ShimSet_add_def)
  show "ShimSet_has (ShimSet_add v s) v"
    by (simp add: ShimSet_add_def ShimSet_has_def dict_has_set)
  then show "ShimSet_add v (ShimSet_add v s) = ShimSet_add v s"
    by (simp add: ShimSet_add_def [of v "ShimSet_add v s"])
  show "ShimSet_size (ShimSet_add v s) = ShimSet_size s + 1" if "\<not> ShimSet_has s v"
    using that by (simp add: ShimSet_add_def)
  show "ShimSet_size (ShimSet_delete v s) = ShimSet_size s - 1" if "ShimSet_has s v"
    using that by (simp add: ShimSet_delete_def)
  show "\<not> ShimSet_has (ShimSet_delete v s) v"
    by (simp add: ShimSet_delete_def ShimSet_has_def dict_has_delete)
  show "ShimSet_delete v s = s" if "\<not> ShimSet_has s v"
    using that by (simp add: ShimSet_delete_def)
qed

text \<open>The theorem at the set that holds \<open>a\<close>.\<close>

theorem ShimSet_size_counts_members_witness:
  "size_counts_members (ShimSet_add ''a'' ShimSet_new)
   \<and> ShimSet_size (ShimSet_add ''a'' ShimSet_new) = 1
   \<and> ShimSet_size (ShimSet_add ''a'' (ShimSet_add ''a'' ShimSet_new)) = 1
   \<and> ShimSet_size (ShimSet_delete ''a'' (ShimSet_add ''a'' ShimSet_new)) = 0
   \<and> ShimSet_size (ShimSet_delete ''b'' (ShimSet_add ''a'' ShimSet_new)) = 1"
proof -
  let ?a = "ShimSet_add ''a'' ShimSet_new"
  have new: "size_counts_members ShimSet_new" "\<not> ShimSet_has ShimSet_new ''a''"
    "ShimSet_size ShimSet_new = 0"
    using ShimSet_size_counts_members [of ShimSet_new "''a''"]
    by (simp_all add: ShimSet_has_def ShimSet_new_def createDictionaryModeObject_empty dict_has_def)
  have a: "size_counts_members ?a" "ShimSet_size ?a = 1" "ShimSet_has ?a ''a''"
    "ShimSet_add ''a'' ?a = ?a"
    using ShimSet_size_counts_members [of ShimSet_new "''a''"] new by simp_all
  have nb: "\<not> ShimSet_has ?a ''b''"
    by (simp add: ShimSet_has_def ShimSet_add_def ShimSet_new_def
        createDictionaryModeObject_empty dict_has_def)
  have "ShimSet_size (ShimSet_delete ''a'' ?a) = 0"
    using ShimSet_size_counts_members [of ?a "''a''"] a by simp
  moreover have "ShimSet_size (ShimSet_delete ''b'' ?a) = 1"
    using ShimSet_size_counts_members [of ?a "''b''"] a nb by simp
  ultimately show ?thesis using a by simp
qed


section \<open>The fallback number map: proofs\<close>

lemma Number_toString_example: "Number_toString 1 = ''1''" "Number_toString (- 12) = ''-12''"
  by (simp_all add: Number_toString_def digits_of_nat.simps digit_char_def)

lemma ShimNumberMap_forEach_loop_fails:
  "keys \<noteq> [] \<Longrightarrow> ShimNumberMap_forEach_loop d action keys s = Inl DebugFailure"
  by (cases keys) (simp_all add: Debug_assert_def)

lemma ShimNumberMap_forEach_fails:
  "ShimNumberMap_data this \<noteq> [] \<Longrightarrow> ShimNumberMap_forEach this action s = Inl DebugFailure"
  by (simp add: ShimNumberMap_forEach_def ShimNumberMap_forEach_loop_fails dict_keys_def)

lemma ShimNumberMap_new_one:
  "ShimNumberMap_data (ShimNumberMap_new (Some [(key, v)])) = [(Number_toString key, v)]"
  "ShimNumberMap_data (ShimNumberMap_set key v (ShimNumberMap_new None)) = [(Number_toString key, v)]"
  "ShimNumberMap_data (ShimNumberMap_new None) = []"
  by (simp_all add: ShimNumberMap_new_def ShimNumberMap_set_def)

text \<open>
  C5. No operation of the maps should raise an error, and \<open>forEach\<close> of the fallback
  number map should run through a map that is not empty without a failed assertion.
  It does not: in the map made of the pair \<open>[1, v]\<close>, and in the one made by
  \<open>set(1, v)\<close>, \<open>has(1)\<close> is true and \<open>get(1)\<close> is \<open>v\<close>, and \<open>forEach\<close> ends with the
  failure of \<open>Debug.assert(typeof key === "number")\<close> at the first key. Only the empty
  map is run through.
\<close>

theorem ShimNumberMap_forEach_fails_assertion:
  "ShimNumberMap_has (ShimNumberMap_new (Some [(1, Value v)])) 1
   \<and> ShimNumberMap_get (ShimNumberMap_new (Some [(1, Value v)])) 1 = Value v
   \<and> ShimNumberMap_forEach (ShimNumberMap_new (Some [(1, Value v)])) action s = Inl DebugFailure
   \<and> ShimNumberMap_forEach (ShimNumberMap_set 1 (Value v) (ShimNumberMap_new None)) action s
       = Inl DebugFailure
   \<and> ShimNumberMap_forEach (ShimNumberMap_new None) action s = Inr s"
proof (intro conjI)
  show "ShimNumberMap_has (ShimNumberMap_new (Some [(1, Value v)])) 1"
    by (simp add: ShimNumberMap_has_def ShimNumberMap_new_one dict_has_def)
  show "ShimNumberMap_get (ShimNumberMap_new (Some [(1, Value v)])) 1 = Value v"
    by (simp add: ShimNumberMap_get_def ShimNumberMap_new_one dict_get_def)
  show "ShimNumberMap_forEach (ShimNumberMap_new (Some [(1, Value v)])) action s = Inl DebugFailure"
    by (rule ShimNumberMap_forEach_fails) (simp add: ShimNumberMap_new_one)
  show "ShimNumberMap_forEach (ShimNumberMap_set 1 (Value v) (ShimNumberMap_new None)) action s
       = Inl DebugFailure"
    by (rule ShimNumberMap_forEach_fails) (simp add: ShimNumberMap_new_one)
  show "ShimNumberMap_forEach (ShimNumberMap_new None) action s = Inr s"
    by (simp add: ShimNumberMap_forEach_def ShimNumberMap_new_one dict_keys_def)
qed

end
